theory Spec2Isabelle
  imports Complex_Main "HOL-Library.Word"
begin

section \<open>The Scalarm simulation manager: data model\<close>

text \<open>
  The worker of \<^verbatim>\<open>scalarmSimulationManager.go\<close>.  Go's \<^verbatim>\<open>int\<close> and
  \<^verbatim>\<open>time.Duration\<close> (an \<^verbatim>\<open>int64\<close> count of nanoseconds) are 64-bit words on
  the 64-bit targets Go is built for; arithmetic on them wraps.  A point in time is an
  integer, the nanoseconds on the worker's clock.
\<close>

type_synonym go_int = "64 word"
type_synonym Duration = "64 word"

text \<open>\<^verbatim>\<open>time.Second\<close>, in nanoseconds.\<close>

definition Second :: Duration where
  "Second = 1000000000"

record SimulationManagerConfig =
  ExperimentId :: string
  InformationServiceUrl :: string
  ExperimentManagerUser :: string
  ExperimentManagerPass :: string
  Development :: bool
  StartAt :: string
  Timeout :: go_int
  ScalarmCertificatePath :: string
  InsecureSSL :: bool

text \<open>
  A decoded JSON value, as \<^verbatim>\<open>encoding/json\<close> stores it in an \<^verbatim>\<open>interface{}\<close>:
  a number is a \<^verbatim>\<open>float64\<close> (here the rational it denotes), an object is a
  \<^verbatim>\<open>map[string]interface{}\<close>.
\<close>

datatype json =
  JNull | JBool bool | JNumber rat | JString string | JArray "json list"
  | JObject "(string \<times> json) list"

record SimulationRunResults =
  Status :: string
  Results :: json
  Reason :: string

text \<open>
  The body of a request: the \<^verbatim>\<open>url.Values\<close> of a form, a field being a text or the
  \<^verbatim>\<open>json.Marshal\<close> of a value, or a multipart file upload.
\<close>

datatype form_value = FText string | FJson json

datatype request_body = Form "(string \<times> form_value) list" | Multipart string

record RequestInfo =
  HttpMethod :: string
  Body :: "request_body option"
  ContentType :: string
  ServiceMethod :: string

subsection \<open>The communication timeout (\<^verbatim>\<open>main\<close>, step 1)\<close>

text \<open>A field that \<^verbatim>\<open>config.json\<close> does not mention keeps Go's zero value.\<close>

definition decoded_Timeout :: "go_int option \<Rightarrow> go_int" where
  "decoded_Timeout field = (case field of None \<Rightarrow> 0 | Some v \<Rightarrow> v)"

text \<open>\<^verbatim>\<open>if config.Timeout <= 0 { config.Timeout = 60 }\<close>\<close>

definition default_Timeout :: "SimulationManagerConfig \<Rightarrow> SimulationManagerConfig" where
  "default_Timeout config =
     (if sint (Timeout config) \<le> 0 then config\<lparr>Timeout := 60\<rparr> else config)"

text \<open>\<^verbatim>\<open>communicationTimeout := time.Duration(config.Timeout) * time.Second\<close>\<close>

definition communicationTimeout :: "SimulationManagerConfig \<Rightarrow> Duration" where
  "communicationTimeout config = Timeout (default_Timeout config) * Second"

subsection \<open>The request dispatcher\<close>

text \<open>
  The network is a parameter.  An endpoint says whether \<^verbatim>\<open>http.NewRequest\<close> accepts
  the method and the URL built for it, and what the successive calls of
  \<^verbatim>\<open>client.Do\<close> in one \<^verbatim>\<open>GetWithTimeout\<close> do: how long the call takes, in
  nanoseconds (here every call returns; the next subsection has calls that do not), and
  whether it returns a transport error or a response, with its status code and its body
  (\<open>None\<close> when \<^verbatim>\<open>ioutil.ReadAll\<close> fails on it).
\<close>

datatype go_error = TransportError | BodyReadError

datatype do_result = DoErr | DoResp nat "string option"

record endpoint =
  request_ok :: "RequestInfo \<Rightarrow> bool"
  attempts :: "RequestInfo \<Rightarrow> nat \<Rightarrow> nat \<times> do_result"

text \<open>
  The loop of \<^verbatim>\<open>GetWithTimeout\<close>, lines 160 to 170: while the deadline is after
  \<^verbatim>\<open>time.Now()\<close>, call \<^verbatim>\<open>client.Do\<close>; on an error sleep one second and go
  on, otherwise leave the loop.  It returns the response if there is one
  (\<^verbatim>\<open>communicationFailed\<close> is false), the variable \<^verbatim>\<open>err\<close> and the time.  Every
  turn that does not leave the loop moves the clock by a second at least, which is the
  termination argument.
\<close>

function GetWithTimeout_loop ::
  "(nat \<Rightarrow> nat \<times> do_result) \<Rightarrow> int \<Rightarrow> nat \<Rightarrow> go_error option \<Rightarrow> int \<Rightarrow>
     (nat \<times> string option) option \<times> go_error option \<times> int" where
  "GetWithTimeout_loop client_Do deadline k err now =
     (if now < deadline then
        (case client_Do k of
           (d, DoErr) \<Rightarrow>
             GetWithTimeout_loop client_Do deadline (Suc k) (Some TransportError)
               (now + int d + 1000000000)
         | (d, DoResp code body) \<Rightarrow> (Some (code, body), None, now + int d))
      else (None, err, now))"
  by pat_completeness auto
termination
  by (relation "measure (\<lambda>(c, deadline, k, err, now). nat (deadline - now))") auto

declare GetWithTimeout_loop.simps [simp del]

text \<open>
  \<^verbatim>\<open>GetWithTimeout\<close>: the body and the error it returns, and the time when it
  returns.  A nil slice is the empty string.  When the loop body never ran, \<^verbatim>\<open>err\<close>
  is still nil and the function returns \<^verbatim>\<open>nil, nil\<close>.
\<close>

definition GetWithTimeout ::
  "endpoint \<Rightarrow> RequestInfo \<Rightarrow> Duration \<Rightarrow> int \<Rightarrow> (string \<times> go_error option) \<times> int" where
  "GetWithTimeout ep request timeout now =
     (case GetWithTimeout_loop (attempts ep request) (now + sint timeout) 0 None now of
        (None, err, now') \<Rightarrow> (([], err), now')
      | (Some (code, None), err, now') \<Rightarrow> (([], Some BodyReadError), now')
      | (Some (code, Some body), err, now') \<Rightarrow> ((body, None), now'))"

text \<open>
  \<^verbatim>\<open>ExecuteScalarmRequest\<close>, with the permutation that \<^verbatim>\<open>rand.Perm\<close> drew as an
  argument.  \<^verbatim>\<open>Fatal\<close> ends the process with exit code 1; an index outside the pool
  would be a panic (\<^verbatim>\<open>rand.Perm\<close> gives none).  Every endpoint is handed the
  request info of the call; that \<^verbatim>\<open>reqInfo.Body\<close> is one reader, of which an endpoint
  tried later finds what the earlier ones have left, is not followed.
\<close>

datatype dispatch_outcome = Returned string | FatalExit | IndexPanic

fun ExecuteScalarmRequest ::
  "RequestInfo \<Rightarrow> endpoint list \<Rightarrow> Duration \<Rightarrow> nat list \<Rightarrow> int \<Rightarrow> dispatch_outcome \<times> int" where
  "ExecuteScalarmRequest reqInfo serviceUrls timeout [] now = (FatalExit, now)"
| "ExecuteScalarmRequest reqInfo serviceUrls timeout (v # perm) now =
     (if length serviceUrls \<le> v then (IndexPanic, now)
      else if \<not> request_ok (serviceUrls ! v) reqInfo then (FatalExit, now)
      else
        (case GetWithTimeout (serviceUrls ! v) reqInfo timeout now of
           ((response, None), now') \<Rightarrow> (Returned response, now')
         | ((response, Some e), now') \<Rightarrow>
             ExecuteScalarmRequest reqInfo serviceUrls timeout perm now'))"

text \<open>
  For the specification: when the attempt \<open>k\<close> on an endpoint begins, counted from the
  start of \<^verbatim>\<open>GetWithTimeout\<close>, if the attempts before it failed; that the endpoint
  answers at attempt \<open>k\<close>, begun before the timeout has elapsed, with a body that can be
  read; that it gives no such answer; that no attempt begun before the timeout has
  elapsed gets a response.
\<close>

fun start_time :: "(nat \<Rightarrow> nat \<times> do_result) \<Rightarrow> nat \<Rightarrow> int" where
  "start_time att 0 = 0"
| "start_time att (Suc k) = start_time att k + int (fst (att k)) + 1000000000"

definition answers_at :: "endpoint \<Rightarrow> RequestInfo \<Rightarrow> Duration \<Rightarrow> nat \<Rightarrow> string \<Rightarrow> bool" where
  "answers_at ep request timeout k body \<longleftrightarrow>
     (\<forall>j<k. snd (attempts ep request j) = DoErr) \<and>
     start_time (attempts ep request) k < sint timeout \<and>
     (\<exists>d code. attempts ep request k = (d, DoResp code (Some body)))"

definition no_answer :: "endpoint \<Rightarrow> RequestInfo \<Rightarrow> Duration \<Rightarrow> bool" where
  "no_answer ep request timeout \<longleftrightarrow> (\<forall>k body. \<not> answers_at ep request timeout k body)"



subsection \<open>The dispatcher when a call need not return\<close>

text \<open>
  The \<^verbatim>\<open>http.Client\<close> of line 311 is made without a \<^verbatim>\<open>Timeout\<close>, so a call of
  \<^verbatim>\<open>client.Do\<close> returns only when the transport does, and the loop tests its deadline
  only between two calls.  Here a call of an endpoint may also never return (\<open>None\<close>).
  The loop of \<^verbatim>\<open>GetWithTimeout\<close>, \<^verbatim>\<open>GetWithTimeout\<close> and
  \<^verbatim>\<open>ExecuteScalarmRequest\<close> are the ones above, with the result \<open>None\<close> when they
  never return.
\<close>

record blocking_endpoint =
  can_build :: "RequestInfo \<Rightarrow> bool"
  calls :: "RequestInfo \<Rightarrow> nat \<Rightarrow> (nat \<times> do_result) option"

function GetWithTimeout_loop_blocking ::
  "(nat \<Rightarrow> (nat \<times> do_result) option) \<Rightarrow> int \<Rightarrow> nat \<Rightarrow> go_error option \<Rightarrow> int \<Rightarrow>
     ((nat \<times> string option) option \<times> go_error option \<times> int) option" where
  "GetWithTimeout_loop_blocking client_Do deadline k err now =
     (if now < deadline then
        (case client_Do k of
           None \<Rightarrow> None
         | Some (d, DoErr) \<Rightarrow>
             GetWithTimeout_loop_blocking client_Do deadline (Suc k) (Some TransportError)
               (now + int d + 1000000000)
         | Some (d, DoResp code body) \<Rightarrow> Some (Some (code, body), None, now + int d))
      else Some (None, err, now))"
  by pat_completeness auto
termination
  by (relation "measure (\<lambda>(c, deadline, k, err, now). nat (deadline - now))") auto

declare GetWithTimeout_loop_blocking.simps [simp del]

definition GetWithTimeout_blocking ::
  "blocking_endpoint \<Rightarrow> RequestInfo \<Rightarrow> Duration \<Rightarrow> int \<Rightarrow>
     ((string \<times> go_error option) \<times> int) option" where
  "GetWithTimeout_blocking ep request timeout now =
     (case GetWithTimeout_loop_blocking (calls ep request) (now + sint timeout) 0 None now of
        None \<Rightarrow> None
      | Some (None, err, now') \<Rightarrow> Some (([], err), now')
      | Some (Some (code, None), err, now') \<Rightarrow> Some (([], Some BodyReadError), now')
      | Some (Some (code, Some body), err, now') \<Rightarrow> Some ((body, None), now'))"

fun ExecuteScalarmRequest_blocking ::
  "RequestInfo \<Rightarrow> blocking_endpoint list \<Rightarrow> Duration \<Rightarrow> nat list \<Rightarrow> int \<Rightarrow>
     (dispatch_outcome \<times> int) option" where
  "ExecuteScalarmRequest_blocking reqInfo serviceUrls timeout [] now = Some (FatalExit, now)"
| "ExecuteScalarmRequest_blocking reqInfo serviceUrls timeout (v # perm) now =
     (if length serviceUrls \<le> v then Some (IndexPanic, now)
      else if \<not> can_build (serviceUrls ! v) reqInfo then Some (FatalExit, now)
      else
        (case GetWithTimeout_blocking (serviceUrls ! v) reqInfo timeout now of
           None \<Rightarrow> None
         | Some ((response, None), now') \<Rightarrow> Some (Returned response, now')
         | Some ((response, Some e), now') \<Rightarrow>
             ExecuteScalarmRequest_blocking reqInfo serviceUrls timeout perm now'))"

text \<open>
  An endpoint all of whose calls return.  For the specification: when the call \<open>k\<close>
  begins if the calls before it returned, and that every call of an endpoint begun before
  the timeout has elapsed returns, with a transport error.
\<close>

definition always_returns :: "endpoint \<Rightarrow> blocking_endpoint" where
  "always_returns ep =
     \<lparr>can_build = request_ok ep, calls = \<lambda>request k. Some (attempts ep request k)\<rparr>"

fun start_time_blocking :: "(nat \<Rightarrow> (nat \<times> do_result) option) \<Rightarrow> nat \<Rightarrow> int" where
  "start_time_blocking c 0 = 0"
| "start_time_blocking c (Suc k) =
     start_time_blocking c k + (case c k of None \<Rightarrow> 0 | Some (d, r) \<Rightarrow> int d) + 1000000000"

definition errors_until_timeout :: "blocking_endpoint \<Rightarrow> RequestInfo \<Rightarrow> Duration \<Rightarrow> bool" where
  "errors_until_timeout ep request timeout \<longleftrightarrow>
     (\<forall>k. start_time_blocking (calls ep request) k < sint timeout \<longrightarrow>
          (\<exists>d. calls ep request k = Some (d, DoErr)))"

subsection \<open>Getting the next simulation run (\<^verbatim>\<open>main\<close>, step 4.a)\<close>

text \<open>
  What \<^verbatim>\<open>encoding/json\<close> makes of a body: it is not JSON; it is a value that decodes
  without an error; or it is an object some part of which cannot be stored (a number
  outside \<^verbatim>\<open>float64\<close>), where the decoder keeps the first error, goes on, and has
  stored the given members when it returns the error.
\<close>

datatype decoding = NotJSON | Decoded json | StoredWithError "(string \<times> json) list"

text \<open>
  \<^verbatim>\<open>json.Unmarshal(nextSimulationBody, &simulation_run)\<close> into a
  \<^verbatim>\<open>map[string]interface{}\<close>: the error flag and the map afterwards.  The members
  of an object are stored into the map that is there, whose other entries stay, also
  when the decoder returns an error for one of them; \<^verbatim>\<open>null\<close> makes the map nil,
  which reads as the empty map; a body that is not JSON, and a value that is neither an
  object nor \<^verbatim>\<open>null\<close>, give an error and leave the map alone.
\<close>

type_synonym go_map = "string \<rightharpoonup> json"

definition Unmarshal_map :: "decoding \<Rightarrow> go_map \<Rightarrow> bool \<times> go_map" where
  "Unmarshal_map parsed m =
     (case parsed of
        NotJSON \<Rightarrow> (True, m)
      | Decoded JNull \<Rightarrow> (False, Map.empty)
      | Decoded (JObject members) \<Rightarrow> (False, m ++ map_of (rev members))
      | Decoded other \<Rightarrow> (True, m)
      | StoredWithError members \<Rightarrow> (True, m ++ map_of (rev members)))"

text \<open>
  Lines 426 to 446, what one reply does to the loop: go on to the sleep of five seconds
  and the next turn, leave the loop with \<^verbatim>\<open>wait\<close> set, leave it with a simulation to
  run, or panic in the type assertion \<^verbatim>\<open>simulation_run["status"].(string)\<close>.
\<close>

datatype iteration = Retry go_map | BreakWait go_map | BreakOk go_map | StatusPanic

definition next_simulation_iteration :: "decoding \<Rightarrow> go_map \<Rightarrow> iteration" where
  "next_simulation_iteration parsed simulation_run =
     (case Unmarshal_map parsed simulation_run of
        (True, m) \<Rightarrow> Retry m
      | (False, m) \<Rightarrow>
          (case m ''status'' of
             Some (JString status) \<Rightarrow>
               if status = ''all_sent'' then Retry m
               else if status = ''error'' then Retry m
               else if status = ''wait'' then BreakWait m
               else if status \<noteq> ''ok'' then Retry m
               else BreakOk m
           | other \<Rightarrow> StatusPanic))"

text \<open>
  The loop of lines 418 to 450.  \<open>parse\<close> is the JSON parser, and \<open>replies k\<close> is what
  the call number \<open>k\<close> of \<^verbatim>\<open>ExecuteScalarmRequest\<close> for \<^verbatim>\<open>next_simulation\<close>
  returns and how long it takes.  The result is how the loop ends, the number of
  requests made and the time.
\<close>

datatype acquisition =
  NextSimulation go_map | WaitRequested go_map | NextSimulationFailed
  | DispatchFatal | TypeAssertionPanic | PermIndexPanic

function next_simulation_loop ::
  "(string \<Rightarrow> decoding) \<Rightarrow> (nat \<Rightarrow> dispatch_outcome \<times> nat) \<Rightarrow> int \<Rightarrow> nat \<Rightarrow> go_map \<Rightarrow> int \<Rightarrow>
     acquisition \<times> nat \<times> int" where
  "next_simulation_loop parse replies deadline k simulation_run now =
     (if now < deadline then
        (case replies k of
           (FatalExit, d) \<Rightarrow> (DispatchFatal, Suc k, now + int d)
         | (IndexPanic, d) \<Rightarrow> (PermIndexPanic, Suc k, now + int d)
         | (Returned nextSimulationBody, d) \<Rightarrow>
             (case next_simulation_iteration (parse nextSimulationBody) simulation_run of
                Retry m \<Rightarrow>
                  next_simulation_loop parse replies deadline (Suc k) m
                    (now + int d + 5000000000)
              | BreakWait m \<Rightarrow> (WaitRequested m, Suc k, now + int d)
              | BreakOk m \<Rightarrow> (NextSimulation m, Suc k, now + int d)
              | StatusPanic \<Rightarrow> (TypeAssertionPanic, Suc k, now + int d)))
      else (NextSimulationFailed, k, now))"
  by pat_completeness auto
termination
  by (relation "measure (\<lambda>(p, r, deadline, k, m, now). nat (deadline - now))") auto

declare next_simulation_loop.simps [simp del]

text \<open>
  The conversion \<^verbatim>\<open>time.Duration(x)\<close> of a \<^verbatim>\<open>float64\<close>: the fraction is dropped
  (towards zero); a value that does not fit in 64 bits gives a result that depends on the
  implementation, here \<open>None\<close>.  Line 452 multiplies the result by
  \<^verbatim>\<open>time.Second\<close>, in 64 bits.
\<close>

definition trunc_toward_zero :: "rat \<Rightarrow> int" where
  "trunc_toward_zero x = (if 0 \<le> x then \<lfloor>x\<rfloor> else \<lceil>x\<rceil>)"

definition Duration_of_float64 :: "rat \<Rightarrow> Duration option" where
  "Duration_of_float64 x =
     (if - (2 ^ 63) \<le> trunc_toward_zero x \<and> trunc_toward_zero x < 2 ^ 63
      then Some (word_of_int (trunc_toward_zero x)) else None)"

definition wait_Duration :: "rat \<Rightarrow> Duration option" where
  "wait_Duration seconds = map_option (\<lambda>d. d * Second) (Duration_of_float64 seconds)"

text \<open>
  Lines 451 to 473, after the loop.  \<open>SleepThenContinue d\<close> is the \<^verbatim>\<open>time.Sleep\<close> of
  line 452 for the duration \<open>d\<close> (it returns at once when \<open>d\<close> is not positive),
  followed by \<^verbatim>\<open>continue\<close>; the type assertion \<^verbatim>\<open>.(float64)\<close> of that line
  panics when the entry is no number.  \<open>Exit 0\<close> is the \<^verbatim>\<open>os.Exit(0)\<close> of line 458
  when no simulation was got.  With a simulation, line 461 asserts that
  \<^verbatim>\<open>simulation_id\<close> is a number and panics otherwise; \<open>MkdirAll i p\<close> is the
  \<^verbatim>\<open>os.MkdirAll\<close> of line 468 for the simulation \<open>i\<close> (\<^verbatim>\<open>Fatal\<close> when it
  fails) followed by \<open>p\<close>: the panic of the type assertion of line 473 when
  \<^verbatim>\<open>input_parameters\<close> is no object, or the writing of \<^verbatim>\<open>input.json\<close> from the
  parameters and the rest of the simulation run.
\<close>

datatype prepared = WriteInput "(string \<times> json) list" | ParametersPanic

datatype main_action =
  MkdirAll rat prepared | SleepThenContinue "Duration option" | Exit nat | Panic

definition after_next_simulation_loop :: "acquisition \<Rightarrow> main_action" where
  "after_next_simulation_loop a =
     (case a of
        WaitRequested m \<Rightarrow>
          (case m ''duration_in_seconds'' of
             Some (JNumber seconds) \<Rightarrow> SleepThenContinue (wait_Duration seconds)
           | other \<Rightarrow> Panic)
      | NextSimulationFailed \<Rightarrow> Exit 0
      | NextSimulation m \<Rightarrow>
          (case m ''simulation_id'' of
             Some (JNumber simulation_index) \<Rightarrow>
               MkdirAll simulation_index
                 (case m ''input_parameters'' of
                    Some (JObject input_parameters) \<Rightarrow> WriteInput input_parameters
                  | other \<Rightarrow> ParametersPanic)
           | other \<Rightarrow> Panic)
      | DispatchFatal \<Rightarrow> Exit 1
      | TypeAssertionPanic \<Rightarrow> Panic
      | PermIndexPanic \<Rightarrow> Panic)"

definition get_next_simulation ::
  "(string \<Rightarrow> decoding) \<Rightarrow> (nat \<Rightarrow> dispatch_outcome \<times> nat) \<Rightarrow> Duration \<Rightarrow> nat \<Rightarrow> int \<Rightarrow>
     main_action \<times> nat \<times> int" where
  "get_next_simulation parse replies timeout managers communicationStart =
     (case next_simulation_loop parse replies
             (communicationStart + sint (timeout * of_nat managers)) 0 Map.empty
             communicationStart of
        (a, n, now) \<Rightarrow> (after_next_simulation_loop a, n, now))"

subsection \<open>Result files and the requests that report them\<close>

text \<open>
  What the worker finds when it reads \<^verbatim>\<open>output.json\<close> or
  \<^verbatim>\<open>intermediate_result.json\<close>: \<^verbatim>\<open>os.Stat\<close> says the file does not exist,
  \<^verbatim>\<open>os.Open\<close> fails, the decoder fails (with what it had stored by then), the file
  holds \<^verbatim>\<open>null\<close>, which makes the pointer decoded into nil, or it decodes.  The
  strings are the texts of the errors.
\<close>

datatype result_file =
  NotExist string
  | OpenFails string
  | DecodeFails string SimulationRunResults
  | DecodesNull
  | Decodes SimulationRunResults

text \<open>
  Lines 205 to 226 and lines 547 to 568: the results read, \<open>None\<close> for the nil pointer,
  which the next use dereferences.
\<close>

definition intermediateResults :: "result_file \<Rightarrow> SimulationRunResults option" where
  "intermediateResults intermediate_result_json =
     (case intermediate_result_json of
        NotExist e \<Rightarrow>
          Some \<lparr>Status = ''error'', Results = JNull,
                Reason = ''No 'intermediate_result.json' file found: '' @ e\<rparr>
      | OpenFails e \<Rightarrow>
          Some \<lparr>Status = ''error'', Results = JNull,
                Reason = ''Could not open 'intermediate_result.json': '' @ e\<rparr>
      | DecodeFails e partial \<Rightarrow>
          Some (partial\<lparr>Status := ''error'',
                Reason := ''Error during 'intermediate_result.json' parsing: '' @ e\<rparr>)
      | DecodesNull \<Rightarrow> None
      | Decodes r \<Rightarrow> Some r)"

definition simulationRunResults :: "result_file \<Rightarrow> SimulationRunResults option" where
  "simulationRunResults output_json =
     (case output_json of
        NotExist e \<Rightarrow>
          Some \<lparr>Status = ''error'', Results = JNull,
                Reason = ''No output.json file found: '' @ e\<rparr>
      | OpenFails e \<Rightarrow>
          Some \<lparr>Status = ''error'', Results = JNull,
                Reason = ''Could not open output.json: '' @ e\<rparr>
      | DecodeFails e partial \<Rightarrow>
          Some (partial\<lparr>Status := ''error'',
                Reason := ''Error during output.json parsing: '' @ e\<rparr>)
      | DecodesNull \<Rightarrow> None
      | Decodes r \<Rightarrow> Some r)"

text \<open>
  Lines 571 to 581 and 229 to 239: the form and the request.  The simulation index is
  given as \<^verbatim>\<open>%v\<close> prints it.
\<close>

definition url_Values :: "SimulationRunResults \<Rightarrow> (string \<times> form_value) list" where
  "url_Values r =
     [(''status'', FText (Status r)), (''reason'', FText (Reason r)),
      (''result'', FJson (Results r))]"

definition progressInfo :: "SimulationManagerConfig \<Rightarrow> string \<Rightarrow> SimulationRunResults \<Rightarrow> RequestInfo" where
  "progressInfo config simIndex r =
     \<lparr>HttpMethod = ''POST'', Body = Some (Form (url_Values r)),
      ContentType = ''application/x-www-form-urlencoded'',
      ServiceMethod =
        ''experiments/'' @ ExperimentId config @ ''/simulations/'' @ simIndex @ ''/progress_info''\<rparr>"

definition markAsCompleteInfo :: "SimulationManagerConfig \<Rightarrow> string \<Rightarrow> SimulationRunResults \<Rightarrow> RequestInfo" where
  "markAsCompleteInfo config simulation_index r =
     \<lparr>HttpMethod = ''POST'', Body = Some (Form (url_Values r)),
      ContentType = ''application/x-www-form-urlencoded'',
      ServiceMethod =
        ''experiments/'' @ ExperimentId config @ ''/simulations/'' @ simulation_index
          @ ''/mark_as_complete''\<rparr>"

text \<open>
  For the specification: the request \<^verbatim>\<open>mark_as_complete\<close> that reports a missing
  \<^verbatim>\<open>output.json\<close>, \<open>e\<close> being the text of the error of \<^verbatim>\<open>os.Stat\<close>.
\<close>

definition missing_output_request :: "SimulationManagerConfig \<Rightarrow> string \<Rightarrow> string \<Rightarrow> RequestInfo" where
  "missing_output_request config simulation_index e =
     \<lparr>HttpMethod = ''POST'',
      Body = Some (Form
        [(''status'', FText ''error''),
         (''reason'', FText (''No output.json file found: '' @ e)),
         (''result'', FJson JNull)]),
      ContentType = ''application/x-www-form-urlencoded'',
      ServiceMethod =
        ''experiments/'' @ ExperimentId config @ ''/simulations/'' @ simulation_index
          @ ''/mark_as_complete''\<rparr>"

subsection \<open>One simulation run: the main thread, the progress monitor and the cleanup\<close>

text \<open>
  What the world outside does during one simulation run, from line 509 on: which adapter
  scripts exist and whether their runs succeed, the result files, the experiment
  managers as they behave for each request and the permutations drawn, and what the
  uploads of steps 4g and 4h meet (no file, a call of \<^verbatim>\<open>Fatal\<close>, or the outcome of
  the request).
\<close>

datatype upload = NoFile | UploadFatal | Upload dispatch_outcome

record world =
  config :: SimulationManagerConfig
  simulation_index :: string
  progress_monitor_exists :: bool
  progress_monitor_run_ok :: "nat \<Rightarrow> bool"
  intermediate_result_json :: "nat \<Rightarrow> result_file"
  progress_managers :: "nat \<Rightarrow> endpoint list"
  progress_perm :: "nat \<Rightarrow> nat list"
  executor_run_ok :: bool
  output_reader_exists :: bool
  output_reader_run_ok :: bool
  output_json :: result_file
  complete_managers :: "endpoint list"
  complete_perm :: "nat list"
  output_tar_gz :: upload
  stdout_txt :: upload
  chdir_ok :: bool

text \<open>
  One turn of the loop of \<^verbatim>\<open>IntermediateMonitoring\<close>, lines 193 to 246, up to the
  \<^verbatim>\<open>select\<close>: it ends the process (\<^verbatim>\<open>os.Exit(1)\<close> after a failed run of the
  script, \<^verbatim>\<open>Fatal\<close> in the dispatcher, a panic) or sleeps ten seconds and goes to the
  \<^verbatim>\<open>select\<close>.  The outcome of a request does not depend on when it starts, so the
  dispatcher is run from time 0.
\<close>

datatype process_end = Exited nat | Panicked

datatype iteration_end = SleepThenSelect | Ends process_end

definition IntermediateMonitoring_iteration :: "world \<Rightarrow> nat \<Rightarrow> iteration_end" where
  "IntermediateMonitoring_iteration w i =
     (if \<not> progress_monitor_run_ok w i then Ends (Exited 1)
      else
        (case intermediateResults (intermediate_result_json w i) of
           None \<Rightarrow> Ends Panicked
         | Some r \<Rightarrow>
             if Status r = ''ok'' then
               (case fst (ExecuteScalarmRequest (progressInfo (config w) (simulation_index w) r)
                            (progress_managers w i) (30 * Second) (progress_perm w i) 0) of
                  Returned body \<Rightarrow> SleepThenSelect
                | FatalExit \<Rightarrow> Ends (Exited 1)
                | IndexPanic \<Rightarrow> Ends Panicked)
             else SleepThenSelect))"

text \<open>Steps 4e and 4f of \<^verbatim>\<open>main\<close>: the request made and its outcome.\<close>

definition mark_as_complete :: "world \<Rightarrow> (RequestInfo \<times> dispatch_outcome) option" where
  "mark_as_complete w =
     (case simulationRunResults (output_json w) of
        None \<Rightarrow> None
      | Some r \<Rightarrow>
          Some (markAsCompleteInfo (config w) (simulation_index w) r,
                fst (ExecuteScalarmRequest (markAsCompleteInfo (config w) (simulation_index w) r)
                       (complete_managers w) (communicationTimeout (config w))
                       (complete_perm w) 0)))"

text \<open>
  A Go channel of capacity 1 that carries \<^verbatim>\<open>struct{}{}\<close>: the number of values in
  its buffer and whether it is closed.  A send blocks while the buffer is full and panics
  on a closed channel; a receive takes a value from the buffer, returns at once on a
  closed and empty channel, and blocks otherwise; closing twice panics.
\<close>

record channel =
  buffered :: nat
  chan_closed :: bool

datatype 'a chan_op = Done 'a | Blocks | ChanPanic

definition chan_send :: "channel \<Rightarrow> channel chan_op" where
  "chan_send c =
     (if chan_closed c then ChanPanic
      else if buffered c < 1 then Done (c\<lparr>buffered := buffered c + 1\<rparr>)
      else Blocks)"

definition chan_receive :: "channel \<Rightarrow> channel chan_op" where
  "chan_receive c =
     (if 0 < buffered c then Done (c\<lparr>buffered := buffered c - 1\<rparr>)
      else if chan_closed c then Done c
      else Blocks)"

definition chan_close :: "channel \<Rightarrow> channel chan_op" where
  "chan_close c = (if chan_closed c then ChanPanic else Done (c\<lparr>chan_closed := True\<rparr>))"

text \<open>
  The three threads of one simulation run, each with its program counter.  The main
  thread: \<^verbatim>\<open>go IntermediateMonitoring\<close> (line 511), the executor (517),
  \<^verbatim>\<open>messages <- struct{}{}\<close> (527), \<^verbatim>\<open>close(messages)\<close> (528), the output
  reader (531), steps 4e and 4f (547 to 584), the two uploads, \<^verbatim>\<open>go func\<close> of the
  cleanup (648), \<^verbatim>\<open>rootDir.Chdir\<close> (657) and the next turn of the main loop, which
  does not touch this run's channels or directory.  The monitor: the \<^verbatim>\<open>os.Stat\<close> of
  line 191, a turn of its loop, the \<^verbatim>\<open>select\<close> of line 247,
  \<^verbatim>\<open>finished <- struct{}{}\<close> (lines 250 and 257), returned.  The cleanup:
  \<^verbatim>\<open><-finished\<close> (650), \<^verbatim>\<open>os.RemoveAll\<close> (651), \<^verbatim>\<open>close(finished)\<close> (652).
\<close>

datatype main_pc =
  StartMonitor | RunExecutor | SendStop | CloseMessages | RunOutputReader | MarkAsComplete
  | UploadBinary | UploadStdout | StartCleanup | ChdirRoot | NextIteration

datatype monitor_pc =
  MonitorNotStarted | StatProgressMonitor | MonitorIteration nat | SelectStop nat
  | SendFinished | MonitorReturned

datatype cleanup_pc =
  CleanupNotStarted | ReceiveFinished | RemoveAll | CloseFinished | CleanupDone

datatype thread = MainThread | MonitorThread | CleanupThread

record process =
  main_at :: main_pc
  monitor_at :: monitor_pc
  cleanup_at :: cleanup_pc
  messages :: channel
  finished :: channel
  ended :: "process_end option"
  directory_removed :: bool
  requests :: "RequestInfo list"

definition initial :: process where
  "initial =
     \<lparr>main_at = StartMonitor, monitor_at = MonitorNotStarted, cleanup_at = CleanupNotStarted,
      messages = \<lparr>buffered = 0, chan_closed = False\<rparr>, finished = \<lparr>buffered = 0, chan_closed = False\<rparr>,
      ended = None, directory_removed = False, requests = []\<rparr>"

text \<open>
  A step of each thread (the state records the requests that the main thread has passed
  to the dispatcher); \<open>None\<close> when the thread is blocked, not started or done.
  After \<^verbatim>\<open>os.Exit\<close> or a panic no thread takes a step.
\<close>

definition after_upload :: "upload \<Rightarrow> main_pc \<Rightarrow> process \<Rightarrow> process" where
  "after_upload u next_pc s =
     (case u of
        NoFile \<Rightarrow> s\<lparr>main_at := next_pc\<rparr>
      | UploadFatal \<Rightarrow> s\<lparr>ended := Some (Exited 1)\<rparr>
      | Upload (Returned body) \<Rightarrow> s\<lparr>main_at := next_pc\<rparr>
      | Upload FatalExit \<Rightarrow> s\<lparr>ended := Some (Exited 1)\<rparr>
      | Upload IndexPanic \<Rightarrow> s\<lparr>ended := Some Panicked\<rparr>)"

definition main_step :: "world \<Rightarrow> process \<Rightarrow> process option" where
  "main_step w s =
     (case main_at s of
        StartMonitor \<Rightarrow> Some (s\<lparr>monitor_at := StatProgressMonitor, main_at := RunExecutor\<rparr>)
      | RunExecutor \<Rightarrow>
          Some (if executor_run_ok w then s\<lparr>main_at := SendStop\<rparr>
                else s\<lparr>ended := Some (Exited 1)\<rparr>)
      | SendStop \<Rightarrow>
          (case chan_send (messages s) of
             Done c \<Rightarrow> Some (s\<lparr>messages := c, main_at := CloseMessages\<rparr>)
           | Blocks \<Rightarrow> None
           | ChanPanic \<Rightarrow> Some (s\<lparr>ended := Some Panicked\<rparr>))
      | CloseMessages \<Rightarrow>
          (case chan_close (messages s) of
             Done c \<Rightarrow> Some (s\<lparr>messages := c, main_at := RunOutputReader\<rparr>)
           | Blocks \<Rightarrow> None
           | ChanPanic \<Rightarrow> Some (s\<lparr>ended := Some Panicked\<rparr>))
      | RunOutputReader \<Rightarrow>
          Some (if output_reader_exists w \<and> \<not> output_reader_run_ok w
                then s\<lparr>ended := Some (Exited 1)\<rparr>
                else s\<lparr>main_at := MarkAsComplete\<rparr>)
      | MarkAsComplete \<Rightarrow>
          (case mark_as_complete w of
             None \<Rightarrow> Some (s\<lparr>ended := Some Panicked\<rparr>)
           | Some (request, Returned body) \<Rightarrow>
               Some (s\<lparr>requests := requests s @ [request], main_at := UploadBinary\<rparr>)
           | Some (request, FatalExit) \<Rightarrow>
               Some (s\<lparr>requests := requests s @ [request], ended := Some (Exited 1)\<rparr>)
           | Some (request, IndexPanic) \<Rightarrow>
               Some (s\<lparr>requests := requests s @ [request], ended := Some Panicked\<rparr>))
      | UploadBinary \<Rightarrow> Some (after_upload (output_tar_gz w) UploadStdout s)
      | UploadStdout \<Rightarrow> Some (after_upload (stdout_txt w) StartCleanup s)
      | StartCleanup \<Rightarrow> Some (s\<lparr>cleanup_at := ReceiveFinished, main_at := ChdirRoot\<rparr>)
      | ChdirRoot \<Rightarrow>
          Some (if chdir_ok w then s\<lparr>main_at := NextIteration\<rparr>
                else s\<lparr>ended := Some (Exited 1)\<rparr>)
      | NextIteration \<Rightarrow> None)"

definition monitor_step :: "world \<Rightarrow> process \<Rightarrow> process option" where
  "monitor_step w s =
     (case monitor_at s of
        MonitorNotStarted \<Rightarrow> None
      | StatProgressMonitor \<Rightarrow>
          Some (if progress_monitor_exists w then s\<lparr>monitor_at := MonitorIteration 0\<rparr>
                else s\<lparr>monitor_at := SendFinished\<rparr>)
      | MonitorIteration i \<Rightarrow>
          (case IntermediateMonitoring_iteration w i of
             SleepThenSelect \<Rightarrow> Some (s\<lparr>monitor_at := SelectStop i\<rparr>)
           | Ends e \<Rightarrow> Some (s\<lparr>ended := Some e\<rparr>))
      | SelectStop i \<Rightarrow>
          (case chan_receive (messages s) of
             Done c \<Rightarrow> Some (s\<lparr>messages := c, monitor_at := SendFinished\<rparr>)
           | Blocks \<Rightarrow> Some (s\<lparr>monitor_at := MonitorIteration (Suc i)\<rparr>)
           | ChanPanic \<Rightarrow> Some (s\<lparr>ended := Some Panicked\<rparr>))
      | SendFinished \<Rightarrow>
          (case chan_send (finished s) of
             Done c \<Rightarrow> Some (s\<lparr>finished := c, monitor_at := MonitorReturned\<rparr>)
           | Blocks \<Rightarrow> None
           | ChanPanic \<Rightarrow> Some (s\<lparr>ended := Some Panicked\<rparr>))
      | MonitorReturned \<Rightarrow> None)"

definition cleanup_step :: "process \<Rightarrow> process option" where
  "cleanup_step s =
     (case cleanup_at s of
        CleanupNotStarted \<Rightarrow> None
      | ReceiveFinished \<Rightarrow>
          (case chan_receive (finished s) of
             Done c \<Rightarrow> Some (s\<lparr>finished := c, cleanup_at := RemoveAll\<rparr>)
           | Blocks \<Rightarrow> None
           | ChanPanic \<Rightarrow> Some (s\<lparr>ended := Some Panicked\<rparr>))
      | RemoveAll \<Rightarrow> Some (s\<lparr>directory_removed := True, cleanup_at := CloseFinished\<rparr>)
      | CloseFinished \<Rightarrow>
          (case chan_close (finished s) of
             Done c \<Rightarrow> Some (s\<lparr>finished := c, cleanup_at := CleanupDone\<rparr>)
           | Blocks \<Rightarrow> None
           | ChanPanic \<Rightarrow> Some (s\<lparr>ended := Some Panicked\<rparr>))
      | CleanupDone \<Rightarrow> None)"

definition step :: "world \<Rightarrow> thread \<Rightarrow> process \<Rightarrow> process option" where
  "step w t s =
     (if ended s \<noteq> None then None
      else case t of
             MainThread \<Rightarrow> main_step w s
           | MonitorThread \<Rightarrow> monitor_step w s
           | CleanupThread \<Rightarrow> cleanup_step s)"

text \<open>
  The interleavings: a schedule names the thread that takes each step, and a state is
  reachable when some schedule leads to it.
\<close>

fun run :: "world \<Rightarrow> thread list \<Rightarrow> process \<Rightarrow> process option" where
  "run w [] s = Some s"
| "run w (t # ts) s = (case step w t s of None \<Rightarrow> None | Some s' \<Rightarrow> run w ts s')"

inductive reachable :: "world \<Rightarrow> process \<Rightarrow> bool" for w :: world where
  reachable_initial: "reachable w initial"
| reachable_step: "reachable w s \<Longrightarrow> step w t s = Some s' \<Longrightarrow> reachable w s'"

subsection \<open>Invariants of a simulation run\<close>

fun after_CloseMessages :: "main_pc \<Rightarrow> bool" where
  "after_CloseMessages StartMonitor = False"
| "after_CloseMessages RunExecutor = False"
| "after_CloseMessages SendStop = False"
| "after_CloseMessages CloseMessages = False"
| "after_CloseMessages pc = True"

definition handshake_inv :: "process \<Rightarrow> bool" where
  "handshake_inv s \<longleftrightarrow>
     (0 < buffered (finished s) \<longrightarrow> monitor_at s = MonitorReturned) \<and>
     (cleanup_at s \<in> {RemoveAll, CloseFinished, CleanupDone} \<longrightarrow> monitor_at s = MonitorReturned) \<and>
     (chan_closed (finished s) \<longrightarrow> cleanup_at s = CleanupDone) \<and>
     (directory_removed s \<longrightarrow> cleanup_at s \<in> {CloseFinished, CleanupDone}) \<and>
     (cleanup_at s \<noteq> CleanupNotStarted \<longrightarrow> main_at s \<in> {ChdirRoot, NextIteration}) \<and>
     (main_at s = StartMonitor \<longrightarrow> monitor_at s = MonitorNotStarted)"

definition stop_inv :: "process \<Rightarrow> bool" where
  "stop_inv s \<longleftrightarrow>
     (main_at s \<in> {StartMonitor, RunExecutor, SendStop} \<longrightarrow>
        buffered (messages s) = 0 \<and> \<not> chan_closed (messages s)) \<and>
     (main_at s = CloseMessages \<longrightarrow>
        \<not> chan_closed (messages s) \<and>
        (buffered (messages s) = 1 \<or> monitor_at s \<in> {SendFinished, MonitorReturned})) \<and>
     (after_CloseMessages (main_at s) \<longrightarrow>
        chan_closed (messages s) \<and>
        (buffered (messages s) = 1 \<or> monitor_at s \<in> {SendFinished, MonitorReturned})) \<and>
     (main_at s = StartMonitor \<longrightarrow> monitor_at s = MonitorNotStarted)"

definition others_same :: "process \<Rightarrow> process \<Rightarrow> bool" where
  "others_same s s' \<longleftrightarrow>
     monitor_at s' = monitor_at s \<and> cleanup_at s' = cleanup_at s \<and>
     messages s' = messages s \<and> finished s' = finished s \<and>
     directory_removed s' = directory_removed s"

subsection \<open>Examples\<close>

text \<open>
  A development configuration; endpoints that answer at once, never answer, have an
  address no request can be built for, or answer from the second attempt on; a parser
  for the replies of the examples.
\<close>

definition example_config :: SimulationManagerConfig where
  "example_config =
     \<lparr>ExperimentId = ''e1'', InformationServiceUrl = ''localhost:11300'',
      ExperimentManagerUser = ''user'', ExperimentManagerPass = ''pass'',
      Development = True, StartAt = [], Timeout = 0,
      ScalarmCertificatePath = [], InsecureSSL = False\<rparr>"

definition get_request :: RequestInfo where
  "get_request =
     \<lparr>HttpMethod = ''GET'', Body = None, ContentType = [],
      ServiceMethod = ''experiment_managers''\<rparr>"

definition up_endpoint :: "string \<Rightarrow> endpoint" where
  "up_endpoint body =
     \<lparr>request_ok = \<lambda>r. True, attempts = \<lambda>r k. (0, DoResp 200 (Some body))\<rparr>"

definition down_endpoint :: endpoint where
  "down_endpoint = \<lparr>request_ok = \<lambda>r. True, attempts = \<lambda>r k. (0, DoErr)\<rparr>"

definition malformed_endpoint :: endpoint where
  "malformed_endpoint = \<lparr>request_ok = \<lambda>r. False, attempts = \<lambda>r k. (0, DoErr)\<rparr>"

definition late_endpoint :: endpoint where
  "late_endpoint =
     \<lparr>request_ok = \<lambda>r. True,
      attempts = \<lambda>r k. if k = 0 then (0, DoErr) else (0, DoResp 200 (Some ''late''))\<rparr>"

text \<open>An endpoint that takes the connection and never answers.\<close>

definition hanging_endpoint :: blocking_endpoint where
  "hanging_endpoint = \<lparr>can_build = \<lambda>r. True, calls = \<lambda>r k. None\<rparr>"

definition example_parse :: "string \<Rightarrow> decoding" where
  "example_parse body =
     (if body = ''{\"status\":\"all_sent\"}'' then
        Decoded (JObject [(''status'', JString ''all_sent'')])
      else if body = ''{\"status\":\"wait\",\"duration_in_seconds\":5}'' then
        Decoded (JObject [(''status'', JString ''wait''), (''duration_in_seconds'', JNumber 5)])
      else if body = ''{\"status\":\"wait\",\"duration_in_seconds\":1.5}'' then
        Decoded (JObject
          [(''status'', JString ''wait''), (''duration_in_seconds'', JNumber (3 / 2))])
      else if body = ''{\"status\":\"wait\"}'' then
        Decoded (JObject [(''status'', JString ''wait'')])
      else if body = ''{\"status\":\"error\",\"duration_in_seconds\":2}'' then
        Decoded (JObject [(''status'', JString ''error''), (''duration_in_seconds'', JNumber 2)])
      else if body = ''{\"status\":\"ok\",\"simulation_id\":3,\"input_parameters\":{\"x\":1}}'' then
        Decoded (JObject
          [(''status'', JString ''ok''), (''simulation_id'', JNumber 3),
           (''input_parameters'', JObject [(''x'', JNumber 1)])])
      else if body = ''{\"status\":\"ok\",\"simulation_id\":3}'' then
        Decoded (JObject [(''status'', JString ''ok''), (''simulation_id'', JNumber 3)])
      else if body = ''{\"status\":\"ok\",\"simulation_id\":1e999}'' then
        StoredWithError [(''status'', JString ''ok''), (''simulation_id'', JNull)]
      else if body = ''{}'' then Decoded (JObject [])
      else NotJSON)"

definition all_sent_then_ok :: "nat \<Rightarrow> dispatch_outcome \<times> nat" where
  "all_sent_then_ok k =
     (if k = 0 then (Returned ''{\"status\":\"all_sent\"}'', 0)
      else (Returned ''{\"status\":\"ok\",\"simulation_id\":3,\"input_parameters\":{\"x\":1}}'', 0))"

definition error_then_wait :: "nat \<Rightarrow> dispatch_outcome \<times> nat" where
  "error_then_wait k =
     (if k = 0 then (Returned ''{\"status\":\"error\",\"duration_in_seconds\":2}'', 0)
      else (Returned ''{\"status\":\"wait\"}'', 0))"

definition always_all_sent :: "nat \<Rightarrow> dispatch_outcome \<times> nat" where
  "always_all_sent k = (Returned ''{\"status\":\"all_sent\"}'', 0)"

text \<open>
  A simulation run with a progress monitor whose reports get through, an executor that
  succeeds and leaves no \<^verbatim>\<open>output.json\<close>; and the same run with an experiment manager
  that is down when the monitor reports.
\<close>

definition example_world :: world where
  "example_world =
     \<lparr>config = example_config, simulation_index = ''3'',
      progress_monitor_exists = True, progress_monitor_run_ok = (\<lambda>i. True),
      intermediate_result_json =
        (\<lambda>i. Decodes \<lparr>Status = ''ok'', Results = JNumber 1, Reason = []\<rparr>),
      progress_managers = (\<lambda>i. [up_endpoint ''{}'']), progress_perm = (\<lambda>i. [0]),
      executor_run_ok = True, output_reader_exists = False, output_reader_run_ok = True,
      output_json = NotExist ''stat output.json: no such file or directory'',
      complete_managers = [up_endpoint ''{}''], complete_perm = [0],
      output_tar_gz = NoFile, stdout_txt = NoFile, chdir_ok = True\<rparr>"

definition unreachable_world :: world where
  "unreachable_world = example_world\<lparr>progress_managers := (\<lambda>i. [down_endpoint])\<rparr>"

text \<open>
  The request that reports the missing \<^verbatim>\<open>output.json\<close> of the example, and states
  of the example run: the main thread about to send the stop signal, having sent it,
  about to report, having reported, and having started the cleanup, all while the monitor
  has not taken a step; the monitor about to acknowledge; the directory removed.
\<close>

definition example_request :: RequestInfo where
  "example_request =
     \<lparr>HttpMethod = ''POST'',
      Body = Some (Form
        [(''status'', FText ''error''),
         (''reason'',
          FText ''No output.json file found: stat output.json: no such file or directory''),
         (''result'', FJson JNull)]),
      ContentType = ''application/x-www-form-urlencoded'',
      ServiceMethod = ''experiments/e1/simulations/3/mark_as_complete''\<rparr>"

definition stop_pending_state :: process where
  "stop_pending_state = initial\<lparr>main_at := SendStop, monitor_at := StatProgressMonitor\<rparr>"

definition stop_sent_state :: process where
  "stop_sent_state =
     stop_pending_state\<lparr>main_at := CloseMessages,
       messages := \<lparr>buffered = 1, chan_closed = False\<rparr>\<rparr>"

definition reporting_state :: process where
  "reporting_state =
     stop_sent_state\<lparr>main_at := MarkAsComplete,
       messages := \<lparr>buffered = 1, chan_closed = True\<rparr>\<rparr>"

definition reported_state :: process where
  "reported_state = reporting_state\<lparr>main_at := UploadBinary, requests := [example_request]\<rparr>"

definition waiting_state :: process where
  "waiting_state = reported_state\<lparr>main_at := ChdirRoot, cleanup_at := ReceiveFinished\<rparr>"

definition acknowledging_state :: process where
  "acknowledging_state =
     waiting_state\<lparr>monitor_at := SendFinished,
       messages := \<lparr>buffered = 0, chan_closed = True\<rparr>\<rparr>"

definition removed_state :: process where
  "removed_state =
     acknowledging_state\<lparr>main_at := NextIteration, monitor_at := MonitorReturned,
       cleanup_at := CloseFinished, directory_removed := True\<rparr>"

section \<open>Properties\<close>

subsection \<open>The communication timeout\<close>

lemma sint_times_Second:
  fixes t :: go_int
  assumes "0 \<le> sint t" "sint t \<le> 9223372036"
  shows "sint (t * Second) = sint t * 1000000000"
proof -
  have "sint (t * Second) = signed_take_bit 63 (sint t * 1000000000)"
    by (simp add: sint_word_ariths Second_def)
  also have "\<dots> = sint t * 1000000000"
    using assms by (intro signed_take_bit_int_eq_self) simp_all
  finally show ?thesis .
qed

text \<open>
  Claim C10, as the code has it.  A timeout that is zero, negative or absent from the
  configuration is replaced by 60, and the communication timeout is then 60 seconds.
  A positive timeout is left as it is in the configuration, and up to 9223372036 seconds
  the communication timeout is exactly that many seconds (in nanoseconds).
\<close>

theorem communicationTimeout_default:
  "(sint (Timeout cfg) \<le> 0 \<longrightarrow>
      Timeout (default_Timeout cfg) = 60 \<and>
      sint (communicationTimeout cfg) = 60 * 1000000000) \<and>
   communicationTimeout (cfg\<lparr>Timeout := decoded_Timeout None\<rparr>) = 60 * Second \<and>
   (0 < sint (Timeout cfg) \<longrightarrow> default_Timeout cfg = cfg) \<and>
   (0 < sint (Timeout cfg) \<and> sint (Timeout cfg) \<le> 9223372036 \<longrightarrow>
      sint (communicationTimeout cfg) = sint (Timeout cfg) * 1000000000)"
proof (intro conjI impI)
  assume "sint (Timeout cfg) \<le> 0"
  then show "Timeout (default_Timeout cfg) = 60"
    by (simp add: default_Timeout_def)
next
  assume "sint (Timeout cfg) \<le> 0"
  then show "sint (communicationTimeout cfg) = 60 * 1000000000"
    by (simp add: communicationTimeout_def default_Timeout_def Second_def)
next
  show "communicationTimeout (cfg\<lparr>Timeout := decoded_Timeout None\<rparr>) = 60 * Second"
    by (simp add: communicationTimeout_def default_Timeout_def decoded_Timeout_def)
next
  assume "0 < sint (Timeout cfg)"
  then show "default_Timeout cfg = cfg"
    by (simp add: default_Timeout_def)
next
  assume a: "0 < sint (Timeout cfg) \<and> sint (Timeout cfg) \<le> 9223372036"
  then have "communicationTimeout cfg = Timeout cfg * Second"
    by (simp add: communicationTimeout_def default_Timeout_def)
  with a show "sint (communicationTimeout cfg) = sint (Timeout cfg) * 1000000000"
    by (simp add: sint_times_Second)
qed

theorem communicationTimeout_default_witness:
  "sint (Timeout (example_config\<lparr>Timeout := 0\<rparr>)) \<le> 0 \<and>
   Timeout (default_Timeout (example_config\<lparr>Timeout := 0\<rparr>)) = 60 \<and>
   sint (communicationTimeout (example_config\<lparr>Timeout := 0\<rparr>)) = 60000000000 \<and>
   0 < sint (Timeout (example_config\<lparr>Timeout := 45\<rparr>)) \<and>
   sint (Timeout (example_config\<lparr>Timeout := 45\<rparr>)) \<le> 9223372036 \<and>
   sint (communicationTimeout (example_config\<lparr>Timeout := 45\<rparr>)) = 45000000000"
  using communicationTimeout_default [of "example_config\<lparr>Timeout := 0\<rparr>"]
    communicationTimeout_default [of "example_config\<lparr>Timeout := 45\<rparr>"]
  by (simp add: example_config_def)

text \<open>
  Claim C10 as the specification words it fails for large values: a configured timeout of
  9223372037 seconds is positive and is kept, but its duration in nanoseconds does not
  fit in 64 bits, and the communication timeout that the requests get is negative.
\<close>

theorem communicationTimeout_overflow:
  "0 < sint (Timeout (example_config\<lparr>Timeout := 9223372037\<rparr>)) \<and>
   sint (communicationTimeout (example_config\<lparr>Timeout := 9223372037\<rparr>))
     = - 9223372036709551616"
  by (simp add: communicationTimeout_def default_Timeout_def example_config_def Second_def)

subsection \<open>The request dispatcher\<close>

lemma start_time_mono: "j \<le> k \<Longrightarrow> start_time att j \<le> start_time att k"
proof (induction k)
  case 0 then show ?case by simp
next
  case (Suc k)
  show ?case
  proof (cases "j = Suc k")
    case True then show ?thesis by simp
  next
    case False
    with Suc.prems have "j \<le> k" by simp
    from Suc.IH [OF this] show ?thesis by simp
  qed
qed

lemma loop_skip_errors:
  assumes "\<forall>j<k. snd (att j) = DoErr" "\<forall>j<k. start_time att j < T"
  shows "GetWithTimeout_loop att (base + T) 0 None base =
         GetWithTimeout_loop att (base + T) k (if k = 0 then None else Some TransportError)
           (base + start_time att k)"
  using assms
proof (induction k)
  case 0 then show ?case by simp
next
  case (Suc k)
  have e: "snd (att k) = DoErr" and t: "start_time att k < T" using Suc.prems by auto
  have "GetWithTimeout_loop att (base + T) 0 None base =
        GetWithTimeout_loop att (base + T) k (if k = 0 then None else Some TransportError)
           (base + start_time att k)"
    using Suc by simp
  also have "\<dots> = GetWithTimeout_loop att (base + T) (Suc k) (Some TransportError)
           (base + start_time att (Suc k))"
    using e t
    by (subst GetWithTimeout_loop.simps) (cases "att k", simp add: algebra_simps)
  finally show ?case by simp
qed

lemma loop_answer:
  assumes "\<forall>j<k. snd (att j) = DoErr" "start_time att k < T" "att k = (d, DoResp code b)"
  shows "GetWithTimeout_loop att (base + T) 0 None base =
           (Some (code, b), None, base + start_time att k + int d)"
proof -
  have "\<forall>j<k. start_time att j < T"
    using start_time_mono [of _ k att] assms(2) by (meson less_imp_le order_le_less_trans)
  from loop_skip_errors [OF assms(1) this]
  have "GetWithTimeout_loop att (base + T) 0 None base =
         GetWithTimeout_loop att (base + T) k (if k = 0 then None else Some TransportError)
           (base + start_time att k)" .
  also have "\<dots> = (Some (code, b), None, base + start_time att k + int d)"
    using assms(2,3) by (subst GetWithTimeout_loop.simps) simp
  finally show ?thesis .
qed

lemma GetWithTimeout_answers:
  assumes "answers_at ep request timeout k body"
  shows "\<exists>now'. GetWithTimeout ep request timeout now = ((body, None), now')"
proof -
  from assms obtain d code where
    a: "\<forall>j<k. snd (attempts ep request j) = DoErr"
       "start_time (attempts ep request) k < sint timeout"
       "attempts ep request k = (d, DoResp code (Some body))"
    by (auto simp: answers_at_def)
  show ?thesis
    unfolding GetWithTimeout_def loop_answer [OF a] by simp
qed

lemma loop_no_answer:
  assumes "\<forall>j<k. snd (att j) = DoErr"
    and "now = base + start_time att k"
    and "k = 0 \<longrightarrow> now < base + T"
    and "k \<noteq> 0 \<longrightarrow> err \<noteq> None"
    and "\<forall>k d code body. (\<forall>j<k. snd (att j) = DoErr) \<and> start_time att k < T \<longrightarrow>
           att k \<noteq> (d, DoResp code (Some body))"
  shows "case GetWithTimeout_loop att (base + T) k err now of
           (None, e, now') \<Rightarrow> e \<noteq> None
         | (Some (code, None), e, now') \<Rightarrow> True
         | (Some (code, Some body), e, now') \<Rightarrow> False"
  using assms
proof (induction att "base + T" k err now rule: GetWithTimeout_loop.induct)
  case (1 att k err now)
  show ?case
  proof (cases "now < base + T")
    case False
    with 1(3-5) show ?thesis
      by (subst GetWithTimeout_loop.simps) (cases "k = 0"; simp)
  next
    case True
    obtain d r where att: "att k = (d, r)" by (cases "att k")
    show ?thesis
    proof (cases r)
      case DoErr
      have "\<forall>j<Suc k. snd (att j) = DoErr"
        using 1(2) att DoErr by (auto simp: less_Suc_eq)
      moreover have "now + int d + 1000000000 = base + start_time att (Suc k)"
        using 1(3) att by simp
      ultimately have "case GetWithTimeout_loop att (base + T) (Suc k) (Some TransportError)
             (now + int d + 1000000000) of
           (None, e, now') \<Rightarrow> e \<noteq> None
         | (Some (code, None), e, now') \<Rightarrow> True
         | (Some (code, Some body), e, now') \<Rightarrow> False"
        using 1(1) [OF True att [symmetric] DoErr] 1(6) by simp
      then show ?thesis
        using True att DoErr by (subst GetWithTimeout_loop.simps) simp
    next
      case (DoResp code b)
      have "start_time att k < T" using True 1(3) by simp
      with 1(2,6) att DoResp have "b = None"
        by (cases b) auto
      then show ?thesis
        using True att DoResp by (subst GetWithTimeout_loop.simps) simp
    qed
  qed
qed

lemma GetWithTimeout_no_answer:
  assumes "0 < sint timeout" "no_answer ep request timeout"
  shows "\<exists>body e now'. GetWithTimeout ep request timeout now = ((body, Some e), now')"
proof -
  have "case GetWithTimeout_loop (attempts ep request) (now + sint timeout) 0 None now of
           (None, e, now') \<Rightarrow> e \<noteq> None
         | (Some (code, None), e, now') \<Rightarrow> True
         | (Some (code, Some body), e, now') \<Rightarrow> False"
    using assms
    by (intro loop_no_answer) (auto simp: no_answer_def answers_at_def)
  then show ?thesis
    unfolding GetWithTimeout_def
    by (auto split: prod.splits option.splits)
qed




lemma dispatch_skip_failed:
  assumes "\<forall>u\<in>set pre. u < length pool \<and> request_ok (pool ! u) reqInfo \<and>
             (\<forall>t. \<exists>body e t'. GetWithTimeout (pool ! u) reqInfo timeout t = ((body, Some e), t'))"
  shows "\<exists>t. ExecuteScalarmRequest reqInfo pool timeout (pre @ rest) now =
              ExecuteScalarmRequest reqInfo pool timeout rest t"
  using assms
proof (induction pre arbitrary: now)
  case Nil then show ?case by auto
next
  case (Cons u pre)
  then obtain body e t' where g: "GetWithTimeout (pool ! u) reqInfo timeout now = ((body, Some e), t')"
    by (meson list.set_intros(1))
  have u: "u < length pool" "request_ok (pool ! u) reqInfo" using Cons.prems by simp_all
  obtain t where "ExecuteScalarmRequest reqInfo pool timeout (pre @ rest) t' =
              ExecuteScalarmRequest reqInfo pool timeout rest t"
    using Cons.IH [of t'] Cons.prems by auto
  with u g show ?case by auto
qed

lemma answers_at_positive: "answers_at ep request timeout k body \<Longrightarrow> 0 < sint timeout"
proof -
  assume "answers_at ep request timeout k body"
  then have "start_time (attempts ep request) k < sint timeout" by (simp add: answers_at_def)
  moreover have "0 \<le> start_time (attempts ep request) k"
    using start_time_mono [of 0 k] by simp
  ultimately show ?thesis by simp
qed



text \<open>The dispatcher does the same whenever it starts; only the clock differs.\<close>

lemma loop_shift:
  "GetWithTimeout_loop att (deadline + c) k err (now + c) =
     (case GetWithTimeout_loop att deadline k err now of (r, e, t) \<Rightarrow> (r, e, t + c))"
proof (induction att deadline k err now rule: GetWithTimeout_loop.induct)
  case (1 att deadline k err now)
  obtain d r where a: "att k = (d, r)" by (cases "att k")
  show ?case
  proof (cases "now < deadline")
    case False
    then show ?thesis
      by (simp add: GetWithTimeout_loop.simps [of _ deadline k err now]
            GetWithTimeout_loop.simps [of _ "deadline + c" k err "now + c"])
  next
    case True
    show ?thesis
    proof (cases r)
      case DoErr
      have eq: "now + c + int d + 1000000000 = now + int d + 1000000000 + c" by simp
      have "GetWithTimeout_loop att (deadline + c) k err (now + c) =
          GetWithTimeout_loop att (deadline + c) (Suc k) (Some TransportError)
            (now + int d + 1000000000 + c)"
        using True a DoErr
        by (subst GetWithTimeout_loop.simps) (simp add: eq)
      also have "\<dots> = (case GetWithTimeout_loop att deadline (Suc k) (Some TransportError)
            (now + int d + 1000000000) of (r, e, t) \<Rightarrow> (r, e, t + c))"
        by (rule 1 [OF True a [symmetric] DoErr])
      also have "\<dots> = (case GetWithTimeout_loop att deadline k err now of
            (r, e, t) \<Rightarrow> (r, e, t + c))"
        using True a DoErr
        by (simp add: GetWithTimeout_loop.simps [of _ deadline k err now])
      finally show ?thesis .
    next
      case (DoResp code b)
      with True a show ?thesis
        by (simp add: GetWithTimeout_loop.simps [of _ deadline k err now]
              GetWithTimeout_loop.simps [of _ "deadline + c" k err "now + c"])
    qed
  qed
qed

lemma GetWithTimeout_shift:
  "GetWithTimeout ep request timeout now =
     (case GetWithTimeout ep request timeout 0 of (x, t) \<Rightarrow> (x, t + now))"
proof -
  have "GetWithTimeout_loop (attempts ep request) (now + sint timeout) 0 None now =
     (case GetWithTimeout_loop (attempts ep request) (sint timeout) 0 None 0 of
        (r, e, t) \<Rightarrow> (r, e, t + now))"
    using loop_shift [of "attempts ep request" "sint timeout" now 0 None 0]
    by (simp add: add.commute)
  then show ?thesis
    unfolding GetWithTimeout_def by (simp split: prod.splits option.splits)
qed

lemma dispatch_shift:
  "fst (ExecuteScalarmRequest reqInfo pool timeout perm now) =
   fst (ExecuteScalarmRequest reqInfo pool timeout perm 0)"
proof -
  have "\<And>a b. fst (ExecuteScalarmRequest reqInfo pool timeout perm a) =
     fst (ExecuteScalarmRequest reqInfo pool timeout perm b)"
  proof (induction perm)
    case Nil
    show ?case by simp
  next
    case (Cons v perm)
    obtain x t where g: "GetWithTimeout (pool ! v) reqInfo timeout 0 = (x, t)"
      by (cases "GetWithTimeout (pool ! v) reqInfo timeout 0")
    have ga: "GetWithTimeout (pool ! v) reqInfo timeout a = (x, t + a)"
      using GetWithTimeout_shift [of "pool ! v" reqInfo timeout a] g by simp
    have gb: "GetWithTimeout (pool ! v) reqInfo timeout b = (x, t + b)"
      using GetWithTimeout_shift [of "pool ! v" reqInfo timeout b] g by simp
    obtain body e where x: "x = (body, e)" by (cases x)
    show ?case
      using ga gb x Cons [of "t + a" "t + b"]
      by (cases e) simp_all
  qed
  then show ?thesis .
qed

lemmas dispatch_defs =
  GetWithTimeout_def GetWithTimeout_loop.simps Second_def up_endpoint_def down_endpoint_def
  malformed_endpoint_def late_endpoint_def





lemma first_answer_returned:
  assumes "perm = pre @ v # post"
    and "\<forall>u\<in>set pre. u < length pool \<and> request_ok (pool ! u) reqInfo \<and>
           no_answer (pool ! u) reqInfo timeout"
    and "v < length pool" and "request_ok (pool ! v) reqInfo"
    and "answers_at (pool ! v) reqInfo timeout k body"
  shows "fst (ExecuteScalarmRequest reqInfo pool timeout perm now) = Returned body"
proof -
  have pos: "0 < sint timeout" using assms(5) by (rule answers_at_positive)
  have "\<forall>u\<in>set pre. u < length pool \<and> request_ok (pool ! u) reqInfo \<and>
             (\<forall>t. \<exists>body e t'. GetWithTimeout (pool ! u) reqInfo timeout t = ((body, Some e), t'))"
    using assms(2) GetWithTimeout_no_answer [OF pos] by blast
  from dispatch_skip_failed [OF this, of "v # post" now]
  obtain t where t: "ExecuteScalarmRequest reqInfo pool timeout perm now =
      ExecuteScalarmRequest reqInfo pool timeout (v # post) t"
    using assms(1) by auto
  obtain t' where "GetWithTimeout (pool ! v) reqInfo timeout t = ((body, None), t')"
    using GetWithTimeout_answers [OF assms(5)] by blast
  with assms(3,4) have "fst (ExecuteScalarmRequest reqInfo pool timeout (v # post) t) = Returned body"
    by simp
  with t show ?thesis by simp
qed

text \<open>When every call returns, the two models of the dispatcher agree.\<close>

lemma loop_blocking_returns:
  "GetWithTimeout_loop_blocking (\<lambda>k. Some (att k)) deadline k err now =
     Some (GetWithTimeout_loop att deadline k err now)"
proof (induction att deadline k err now rule: GetWithTimeout_loop.induct)
  case (1 att deadline k err now)
  obtain d r where a: "att k = (d, r)" by (cases "att k")
  show ?case
  proof (cases "now < deadline")
    case False
    then show ?thesis
      by (simp add: GetWithTimeout_loop.simps [of _ deadline k err now]
            GetWithTimeout_loop_blocking.simps [of _ deadline k err now])
  next
    case True
    show ?thesis
    proof (cases r)
      case DoErr
      with True a 1 [OF True a [symmetric] DoErr] show ?thesis
        by (simp add: GetWithTimeout_loop.simps [of _ deadline k err now]
              GetWithTimeout_loop_blocking.simps [of _ deadline k err now])
    next
      case (DoResp code b)
      with True a show ?thesis
        by (simp add: GetWithTimeout_loop.simps [of _ deadline k err now]
              GetWithTimeout_loop_blocking.simps [of _ deadline k err now])
    qed
  qed
qed

lemma GetWithTimeout_blocking_returns:
  "GetWithTimeout_blocking (always_returns ep) request timeout now =
     Some (GetWithTimeout ep request timeout now)"
  unfolding GetWithTimeout_blocking_def GetWithTimeout_def
  by (simp add: always_returns_def loop_blocking_returns split: prod.splits option.splits)

lemma dispatch_blocking_returns:
  "ExecuteScalarmRequest_blocking reqInfo (map always_returns pool) timeout perm now =
     Some (ExecuteScalarmRequest reqInfo pool timeout perm now)"
proof (induction perm arbitrary: now)
  case Nil
  show ?case by simp
next
  case (Cons v perm)
  show ?case
  proof (cases "v < length pool")
    case False
    then show ?thesis by simp
  next
    case True
    have "can_build (always_returns (pool ! v)) reqInfo = request_ok (pool ! v) reqInfo"
      by (simp add: always_returns_def)
    with True Cons show ?thesis
      by (simp add: GetWithTimeout_blocking_returns split: prod.splits option.splits)
  qed
qed

lemma loop_blocking_errors:
  assumes "now = base + start_time_blocking c k"
    and "k = 0 \<longrightarrow> now < base + T"
    and "k \<noteq> 0 \<longrightarrow> err = Some TransportError"
    and "\<forall>k. start_time_blocking c k < T \<longrightarrow> (\<exists>d. c k = Some (d, DoErr))"
  shows "\<exists>now'. GetWithTimeout_loop_blocking c (base + T) k err now
            = Some (None, Some TransportError, now') \<and> base + T \<le> now'"
  using assms
proof (induction c "base + T" k err now rule: GetWithTimeout_loop_blocking.induct)
  case (1 c k err now)
  show ?case
  proof (cases "now < base + T")
    case False
    with 1(3,4) show ?thesis
      by (subst GetWithTimeout_loop_blocking.simps) (cases "k = 0"; simp)
  next
    case True
    then have "start_time_blocking c k < T" using 1(2) by simp
    with 1(5) obtain d where c: "c k = Some (d, DoErr)" by blast
    have "now + int d + 1000000000 = base + start_time_blocking c (Suc k)"
      using 1(2) c by simp
    then have "\<exists>now'. GetWithTimeout_loop_blocking c (base + T) (Suc k) (Some TransportError)
             (now + int d + 1000000000) = Some (None, Some TransportError, now')
           \<and> base + T \<le> now'"
      using 1(1) [OF True c refl refl] 1(5) by simp
    then show ?thesis
      using True c by (subst GetWithTimeout_loop_blocking.simps) simp
  qed
qed

lemma GetWithTimeout_blocking_errors:
  assumes "0 < sint timeout" "errors_until_timeout ep request timeout"
  shows "\<exists>now'. GetWithTimeout_blocking ep request timeout now
            = Some (([], Some TransportError), now') \<and> now + sint timeout \<le> now'"
proof -
  have "\<exists>now'. GetWithTimeout_loop_blocking (calls ep request) (now + sint timeout) 0 None now
           = Some (None, Some TransportError, now') \<and> now + sint timeout \<le> now'"
    using assms by (intro loop_blocking_errors) (auto simp: errors_until_timeout_def)
  then show ?thesis
    unfolding GetWithTimeout_blocking_def by auto
qed

lemma dispatch_blocking_all_fail:
  assumes "\<forall>v\<in>set perm. v < length pool \<and>
             (\<forall>t. \<exists>body e t'.
                GetWithTimeout_blocking (pool ! v) reqInfo timeout t = Some ((body, Some e), t'))"
  shows "\<exists>t'. ExecuteScalarmRequest_blocking reqInfo pool timeout perm now = Some (FatalExit, t')"
  using assms
proof (induction perm arbitrary: now)
  case Nil then show ?case by simp
next
  case (Cons v perm)
  then obtain body e t' where
    g: "GetWithTimeout_blocking (pool ! v) reqInfo timeout now = Some ((body, Some e), t')"
    by (meson list.set_intros(1))
  have v: "v < length pool" using Cons.prems by simp
  have "\<exists>t''. ExecuteScalarmRequest_blocking reqInfo pool timeout perm t' = Some (FatalExit, t'')"
    using Cons by simp
  with v g show ?case by simp
qed

lemmas blocking_defs =
  GetWithTimeout_blocking_def GetWithTimeout_loop_blocking.simps always_returns_def
  hanging_endpoint_def down_endpoint_def Second_def

text \<open>
  Claim C7, as the code has it.  With a positive timeout and a pool in which every call
  of \<^verbatim>\<open>client.Do\<close> begun before its endpoint's timeout has elapsed returns, with a
  transport error, the dispatcher returns: every \<^verbatim>\<open>GetWithTimeout\<close> returns a
  transport error at the first test of its deadline after the timeout has elapsed, and
  the dispatcher calls \<^verbatim>\<open>Fatal\<close>.  The loop of \<^verbatim>\<open>GetWithTimeout\<close> is a function
  whose termination is proved from the second that every failed call adds to the clock.
\<close>

theorem dispatch_unanswered_fatal:
  assumes "0 < sint timeout"
    and "\<forall>v\<in>set perm. v < length pool \<and> errors_until_timeout (pool ! v) reqInfo timeout"
  shows "(\<exists>t'. ExecuteScalarmRequest_blocking reqInfo pool timeout perm now
                = Some (FatalExit, t')) \<and>
         (\<forall>v\<in>set perm. \<forall>t. \<exists>t'.
            GetWithTimeout_blocking (pool ! v) reqInfo timeout t
              = Some (([], Some TransportError), t') \<and>
            t + sint timeout \<le> t')"
proof
  have g: "\<forall>v\<in>set perm. \<forall>t. \<exists>t'.
            GetWithTimeout_blocking (pool ! v) reqInfo timeout t
              = Some (([], Some TransportError), t') \<and>
            t + sint timeout \<le> t'"
    using assms GetWithTimeout_blocking_errors [OF assms(1)] by blast
  then have "\<forall>v\<in>set perm. v < length pool \<and>
             (\<forall>t. \<exists>body e t'.
                GetWithTimeout_blocking (pool ! v) reqInfo timeout t = Some ((body, Some e), t'))"
    using assms(2) by blast
  then show "\<exists>t'. ExecuteScalarmRequest_blocking reqInfo pool timeout perm now
                = Some (FatalExit, t')"
    by (rule dispatch_blocking_all_fail)
  from g show "\<forall>v\<in>set perm. \<forall>t. \<exists>t'.
            GetWithTimeout_blocking (pool ! v) reqInfo timeout t
              = Some (([], Some TransportError), t') \<and>
            t + sint timeout \<le> t'" .
qed

theorem dispatch_unanswered_fatal_witness:
  "0 < sint (2 * Second) \<and>
   errors_until_timeout (always_returns down_endpoint) get_request (2 * Second) \<and>
   ExecuteScalarmRequest_blocking get_request
     [always_returns down_endpoint, always_returns down_endpoint] (2 * Second) [1, 0] 0
     = Some (FatalExit, 4000000000) \<and>
   GetWithTimeout_blocking (always_returns down_endpoint) get_request (2 * Second) 0
     = Some (([], Some TransportError), 2000000000)"
proof -
  have p: "0 < sint (2 * Second)" by (simp add: Second_def)
  have n: "errors_until_timeout (always_returns down_endpoint) get_request (2 * Second)"
    by (simp add: errors_until_timeout_def always_returns_def down_endpoint_def)
  have "\<exists>t'. ExecuteScalarmRequest_blocking get_request
          [always_returns down_endpoint, always_returns down_endpoint] (2 * Second) [1, 0] 0
          = Some (FatalExit, t')"
    using dispatch_unanswered_fatal
        [of "2 * Second" "[1, 0]" "[always_returns down_endpoint, always_returns down_endpoint]"
          get_request 0] p n
    by (simp add: less_Suc_eq)
  with p n show ?thesis by (simp add: blocking_defs)
qed

text \<open>
  Claim C7 as the specification words it fails.  An endpoint that takes the connection
  and never answers yields no response before the timeout, and the dispatcher never
  returns: the first call blocks and the deadline is not looked at again.  And with the
  timeout that the configured 9223372037 seconds give, which is negative, the loop
  body never runs, \<^verbatim>\<open>GetWithTimeout\<close> returns \<^verbatim>\<open>nil, nil\<close>, and the dispatcher
  returns an empty body from an endpoint that is down and does not call
  \<^verbatim>\<open>Fatal\<close>.
\<close>

theorem dispatch_blocks_or_returns_empty:
  "calls hanging_endpoint get_request 0 = None \<and>
   ExecuteScalarmRequest_blocking get_request [hanging_endpoint] (30 * Second) [0] 0 = None \<and>
   sint (communicationTimeout (example_config\<lparr>Timeout := 9223372037\<rparr>)) < 0 \<and>
   ExecuteScalarmRequest_blocking get_request [always_returns down_endpoint]
     (communicationTimeout (example_config\<lparr>Timeout := 9223372037\<rparr>)) [0] 0
     = Some (Returned [], 0)"
  by (simp add: blocking_defs communicationTimeout_def default_Timeout_def example_config_def)

subsection \<open>Getting the next simulation run\<close>

lemma loop_failed_after_deadline:
  "fst (next_simulation_loop parse replies deadline k simulation_run now) = NextSimulationFailed
     \<Longrightarrow> deadline \<le> snd (snd (next_simulation_loop parse replies deadline k simulation_run now))"
proof (induction parse replies deadline k simulation_run now rule: next_simulation_loop.induct)
  case (1 parse replies deadline k simulation_run now)
  show ?case
  proof (cases "now < deadline")
    case False
    then show ?thesis by (simp add: next_simulation_loop.simps [of _ _ deadline k simulation_run now])
  next
    case True
    obtain r d where r: "replies k = (r, d)" by (cases "replies k")
    show ?thesis
    proof (cases r)
      case (Returned body)
      show ?thesis
      proof (cases "next_simulation_iteration (parse body) simulation_run")
        case (Retry m)
        with True r Returned 1 show ?thesis
          by (simp add: next_simulation_loop.simps [of _ _ deadline k simulation_run now])
      qed (use True r Returned 1(2) in
            \<open>simp_all add: next_simulation_loop.simps [of _ _ deadline k simulation_run now]\<close>)
    qed (use True r 1(2) in
          \<open>simp_all add: next_simulation_loop.simps [of _ _ deadline k simulation_run now]\<close>)
  qed
qed

lemma after_loop_Exit0:
  "after_next_simulation_loop a = Exit 0 \<longleftrightarrow> a = NextSimulationFailed"
  by (auto simp: after_next_simulation_loop_def split: acquisition.splits option.splits json.splits)

lemma trunc_of_int [simp]: "trunc_toward_zero (of_int n) = n"
  by (simp add: trunc_toward_zero_def)

lemma trunc_numeral [simp]: "trunc_toward_zero (numeral n) = numeral n"
  by (simp add: trunc_toward_zero_def)

lemma trunc_three_halves: "trunc_toward_zero (3 / 2) = 1"
  by (simp add: trunc_toward_zero_def floor_eq_iff)

lemma wait_Duration_whole:
  assumes "0 \<le> n" "n \<le> 9223372036"
  shows "\<exists>dur. wait_Duration (of_int n) = Some dur \<and> sint dur = n * 1000000000"
proof -
  have "sint (word_of_int n :: 64 word) = signed_take_bit 63 n"
    by (simp add: sint_sbintrunc')
  also have "\<dots> = n"
    using assms by (intro signed_take_bit_int_eq_self) simp_all
  finally have "sint (word_of_int n :: 64 word) = n" .
  then have "sint ((word_of_int n :: 64 word) * Second) = n * 1000000000"
    using assms sint_times_Second [of "word_of_int n"] by simp
  then show ?thesis
    using assms by (simp add: wait_Duration_def Duration_of_float64_def)
qed

lemmas acquisition_defs =
  get_next_simulation_def next_simulation_loop.simps next_simulation_iteration_def
  Unmarshal_map_def after_next_simulation_loop_def example_parse_def all_sent_then_ok_def
  always_all_sent_def error_then_wait_def wait_Duration_def Duration_of_float64_def
  trunc_three_halves Second_def

text \<open>
  Claim C5, as the code has it.  When a reply decodes to the status \<^verbatim>\<open>all_sent\<close>, the
  worker sleeps five seconds and, while the time for getting a simulation has not
  elapsed, asks the experiment managers again; the process ends with exit code 0 only
  when that time has elapsed without a simulation or a request to wait.
\<close>

theorem all_sent_retries:
  assumes "now < deadline" and "replies k = (Returned body, d)"
    and "Unmarshal_map (parse body) simulation_run = (False, m)"
    and "m ''status'' = Some (JString ''all_sent'')"
  shows "next_simulation_loop parse replies deadline k simulation_run now =
           next_simulation_loop parse replies deadline (Suc k) m (now + int d + 5000000000) \<and>
         (after_next_simulation_loop
            (fst (next_simulation_loop parse replies deadline k simulation_run now)) = Exit 0
          \<longrightarrow> deadline \<le> snd (snd (next_simulation_loop parse replies deadline k simulation_run now)))"
proof
  have "next_simulation_iteration (parse body) simulation_run = Retry m"
    using assms(3,4) by (simp add: next_simulation_iteration_def)
  with assms(1,2)
  show "next_simulation_loop parse replies deadline k simulation_run now =
           next_simulation_loop parse replies deadline (Suc k) m (now + int d + 5000000000)"
    by (simp add: next_simulation_loop.simps [of _ _ deadline k simulation_run now])
  show "after_next_simulation_loop
            (fst (next_simulation_loop parse replies deadline k simulation_run now)) = Exit 0
          \<longrightarrow> deadline \<le> snd (snd (next_simulation_loop parse replies deadline k simulation_run now))"
    using loop_failed_after_deadline by (simp add: after_loop_Exit0)
qed

theorem all_sent_retries_witness:
  "next_simulation_loop example_parse always_all_sent 20000000000 0 Map.empty 0 =
     next_simulation_loop example_parse always_all_sent 20000000000 (Suc 0)
       (Map.empty ++ map_of (rev [(''status'', JString ''all_sent'')])) 5000000000 \<and>
   after_next_simulation_loop
     (fst (next_simulation_loop example_parse always_all_sent 20000000000 0 Map.empty 0))
     = Exit 0 \<and>
   (20000000000::int) \<le>
     snd (snd (next_simulation_loop example_parse always_all_sent 20000000000 0 Map.empty 0))"
proof -
  have e: "after_next_simulation_loop
     (fst (next_simulation_loop example_parse always_all_sent 20000000000 0 Map.empty 0))
     = Exit 0"
    by (simp add: acquisition_defs)
  have h1: "(0::int) < 20000000000" by simp
  have h2: "always_all_sent 0 = (Returned ''{\"status\":\"all_sent\"}'', 0)"
    by (simp add: always_all_sent_def)
  have h3: "Unmarshal_map (example_parse ''{\"status\":\"all_sent\"}'') Map.empty =
      (False, Map.empty ++ map_of (rev [(''status'', JString ''all_sent'')]))"
    by (simp add: example_parse_def Unmarshal_map_def)
  have h4: "(Map.empty ++ map_of (rev [(''status'', JString ''all_sent'')])) ''status'' =
      Some (JString ''all_sent'')"
    by simp
  note t = all_sent_retries [where replies = always_all_sent and k = 0 and parse = example_parse
      and simulation_run = Map.empty
      and m = "Map.empty ++ map_of (rev [(''status'', JString ''all_sent'')])",
      OF h1 h2 h3 h4]
  from t have a: "next_simulation_loop example_parse always_all_sent 20000000000 0 Map.empty 0 =
     next_simulation_loop example_parse always_all_sent 20000000000 (Suc 0)
       (Map.empty ++ map_of (rev [(''status'', JString ''all_sent'')])) 5000000000"
    by simp
  from t e have l: "(20000000000::int) \<le>
     snd (snd (next_simulation_loop example_parse always_all_sent 20000000000 0 Map.empty 0))"
    by blast
  from a e l show ?thesis by blast
qed

text \<open>
  Claim C5 as the specification words it fails.  With one experiment manager that always
  replies \<^verbatim>\<open>all_sent\<close> and a timeout of twenty seconds, the worker makes four
  requests before it ends with exit code 0 at twenty seconds.  And when the second reply
  brings a simulation, the process does not end but goes on to run it.
\<close>

theorem all_sent_then_simulation:
  "get_next_simulation example_parse always_all_sent (20 * Second) 1 0
     = (Exit 0, 4, 20000000000) \<and>
   fst (all_sent_then_ok 0) = Returned ''{\"status\":\"all_sent\"}'' \<and>
   get_next_simulation example_parse all_sent_then_ok (60 * Second) 1 0 =
     (MkdirAll 3 (WriteInput [(''x'', JNumber 1)]), 2, 5000000000)"
  by (simp add: acquisition_defs)




text \<open>
  Claim C9, as the code has it.  When a reply is decoded and the status in the map is
  \<^verbatim>\<open>wait\<close>, the worker sleeps if the entry \<^verbatim>\<open>duration_in_seconds\<close> of the map is a
  number, and panics in the type assertion of line 452 if the map has no such entry or
  the entry is no number.  The reply is an object, and the map holds its members over what
  earlier replies of the same loop left in it.  The sleep is the number without its fraction,
  times \<^verbatim>\<open>time.Second\<close> in 64 bits: the seconds asked for when they are whole and at
  most 9223372036.
\<close>

theorem wait_sleeps_or_panics:
  assumes "now < deadline" and "replies k = (Returned body, d)"
    and "Unmarshal_map (parse body) simulation_run = (False, m)"
    and "m ''status'' = Some (JString ''wait'')"
  shows "(\<forall>seconds. m ''duration_in_seconds'' = Some (JNumber seconds) \<longrightarrow>
            after_next_simulation_loop (fst (next_simulation_loop parse replies deadline k simulation_run now))
            = SleepThenContinue (wait_Duration seconds)) \<and>
         ((\<forall>seconds. m ''duration_in_seconds'' \<noteq> Some (JNumber seconds)) \<longrightarrow>
            after_next_simulation_loop (fst (next_simulation_loop parse replies deadline k simulation_run now))
            = Panic) \<and>
         (\<exists>members. parse body = Decoded (JObject members) \<and>
            m = simulation_run ++ map_of (rev members)) \<and>
         (\<forall>x. - (2 ^ 63) \<le> trunc_toward_zero x \<and> trunc_toward_zero x < 2 ^ 63 \<longrightarrow>
            wait_Duration x = Some (word_of_int (trunc_toward_zero x) * Second)) \<and>
         (\<forall>n. 0 \<le> n \<and> n \<le> 9223372036 \<longrightarrow>
            (\<exists>dur. wait_Duration (of_int n) = Some dur \<and> sint dur = n * 1000000000))"
proof (intro conjI)
  have "next_simulation_iteration (parse body) simulation_run = BreakWait m"
    using assms(3,4) by (simp add: next_simulation_iteration_def)
  with assms(1,2)
  have w: "fst (next_simulation_loop parse replies deadline k simulation_run now) = WaitRequested m"
    by (simp add: next_simulation_loop.simps [of _ _ deadline k simulation_run now])
  show "\<forall>seconds. m ''duration_in_seconds'' = Some (JNumber seconds) \<longrightarrow>
            after_next_simulation_loop (fst (next_simulation_loop parse replies deadline k simulation_run now))
            = SleepThenContinue (wait_Duration seconds)"
    using w by (simp add: after_next_simulation_loop_def)
  show "(\<forall>seconds. m ''duration_in_seconds'' \<noteq> Some (JNumber seconds)) \<longrightarrow>
            after_next_simulation_loop (fst (next_simulation_loop parse replies deadline k simulation_run now))
            = Panic"
    using w by (auto simp: after_next_simulation_loop_def split: option.splits json.splits)
  show "\<exists>members. parse body = Decoded (JObject members) \<and>
            m = simulation_run ++ map_of (rev members)"
    using assms(3,4)
    by (cases "parse body") (auto simp: Unmarshal_map_def split: json.splits)
  show "\<forall>x. - (2 ^ 63) \<le> trunc_toward_zero x \<and> trunc_toward_zero x < 2 ^ 63 \<longrightarrow>
            wait_Duration x = Some (word_of_int (trunc_toward_zero x) * Second)"
    by (simp add: wait_Duration_def Duration_of_float64_def)
  show "\<forall>n. 0 \<le> n \<and> n \<le> 9223372036 \<longrightarrow>
            (\<exists>dur. wait_Duration (of_int n) = Some dur \<and> sint dur = n * 1000000000)"
    using wait_Duration_whole by blast
qed

theorem wait_sleeps_or_panics_witness:
  "after_next_simulation_loop (fst (next_simulation_loop example_parse (\<lambda>k. (Returned ''{\"status\":\"wait\",\"duration_in_seconds\":5}'', 0))
        60000000000 0 Map.empty 0)) = SleepThenContinue (Some 5000000000) \<and>
   after_next_simulation_loop (fst (next_simulation_loop example_parse (\<lambda>k. (Returned ''{\"status\":\"wait\"}'', 0))
        60000000000 0 Map.empty 0)) = Panic \<and>
   wait_Duration 5 = Some 5000000000"
proof -
  have d: "(0::int) < 60000000000" by simp
  have w5: "Unmarshal_map (example_parse ''{\"status\":\"wait\",\"duration_in_seconds\":5}'') Map.empty =
      (False, Map.empty ++ map_of (rev [(''status'', JString ''wait''), (''duration_in_seconds'', JNumber 5)]))"
    by (simp add: example_parse_def Unmarshal_map_def)
  note t_w5 = wait_sleeps_or_panics
    [where replies = "\<lambda>k. (Returned ''{\"status\":\"wait\",\"duration_in_seconds\":5}'', 0)" and k = 0 and parse = example_parse
      and simulation_run = Map.empty and now = 0 and deadline = 60000000000
      and m = "Map.empty ++ map_of (rev [(''status'', JString ''wait''), (''duration_in_seconds'', JNumber 5)])", OF d _ w5]
  have w: "Unmarshal_map (example_parse ''{\"status\":\"wait\"}'') Map.empty =
      (False, Map.empty ++ map_of (rev [(''status'', JString ''wait'')]))"
    by (simp add: example_parse_def Unmarshal_map_def)
  note t_w = wait_sleeps_or_panics
    [where replies = "\<lambda>k. (Returned ''{\"status\":\"wait\"}'', 0)" and k = 0 and parse = example_parse
      and simulation_run = Map.empty and now = 0 and deadline = 60000000000
      and m = "Map.empty ++ map_of (rev [(''status'', JString ''wait'')])", OF d _ w]
  have v: "wait_Duration 5 = Some 5000000000"
    by (simp add: wait_Duration_def Duration_of_float64_def Second_def)
  have c1: "after_next_simulation_loop (fst (next_simulation_loop example_parse (\<lambda>k. (Returned ''{\"status\":\"wait\",\"duration_in_seconds\":5}'', 0))
        60000000000 0 Map.empty 0)) = SleepThenContinue (Some 5000000000)"
    using t_w5 v by simp
  have c2: "after_next_simulation_loop (fst (next_simulation_loop example_parse (\<lambda>k. (Returned ''{\"status\":\"wait\"}'', 0))
        60000000000 0 Map.empty 0)) = Panic"
    using t_w by simp
  from c1 c2 v show ?thesis by blast
qed

text \<open>
  Claim C9 as the specification words it fails.  After a reply with the status
  \<^verbatim>\<open>error\<close> that carries \<^verbatim>\<open>duration_in_seconds\<close>, a reply \<^verbatim>\<open>wait\<close> without the
  field does not crash the worker: the entry of the first reply is still in the map, and
  the worker sleeps its two seconds.  And for a request of 1.5 seconds the worker sleeps
  one second.
\<close>

theorem wait_without_field_sleeps:
  "error_then_wait 1 = (Returned ''{\"status\":\"wait\"}'', 0) \<and>
   example_parse ''{\"status\":\"wait\"}'' = Decoded (JObject [(''status'', JString ''wait'')]) \<and>
   get_next_simulation example_parse error_then_wait (60 * Second) 1 0
     = (SleepThenContinue (Some 2000000000), 2, 5000000000) \<and>
   get_next_simulation example_parse (\<lambda>k. (Returned ''{\"status\":\"wait\",\"duration_in_seconds\":1.5}'', 0)) (60 * Second) 1 0
     = (SleepThenContinue (Some 1000000000), 1, 0)"
  by (simp add: acquisition_defs)

subsection \<open>One simulation run\<close>

text \<open>What a step of each thread changes.\<close>

lemma after_upload_cases:
  "after_upload u pc s = s\<lparr>main_at := pc\<rparr> \<or> (\<exists>e. after_upload u pc s = s\<lparr>ended := e\<rparr>)"
  by (auto simp: after_upload_def split: upload.splits dispatch_outcome.splits)

lemma main_step_cases:
  assumes "main_step w s = Some s'"
  shows "(main_at s' = main_at s \<and> others_same s s') \<or>
         (main_at s = StartMonitor \<and> main_at s' = RunExecutor \<and>
            monitor_at s' = StatProgressMonitor \<and> cleanup_at s' = cleanup_at s \<and>
            messages s' = messages s \<and> finished s' = finished s \<and>
            directory_removed s' = directory_removed s) \<or>
         (main_at s = SendStop \<and> main_at s' = CloseMessages \<and>
            \<not> chan_closed (messages s) \<and> buffered (messages s) = 0 \<and>
            messages s' = (messages s)\<lparr>buffered := 1\<rparr> \<and>
            monitor_at s' = monitor_at s \<and> cleanup_at s' = cleanup_at s \<and>
            finished s' = finished s \<and> directory_removed s' = directory_removed s) \<or>
         (main_at s = CloseMessages \<and> main_at s' = RunOutputReader \<and>
            \<not> chan_closed (messages s) \<and> messages s' = (messages s)\<lparr>chan_closed := True\<rparr> \<and>
            monitor_at s' = monitor_at s \<and> cleanup_at s' = cleanup_at s \<and>
            finished s' = finished s \<and> directory_removed s' = directory_removed s) \<or>
         (main_at s = StartCleanup \<and> main_at s' = ChdirRoot \<and>
            cleanup_at s' = ReceiveFinished \<and> monitor_at s' = monitor_at s \<and>
            messages s' = messages s \<and> finished s' = finished s \<and>
            directory_removed s' = directory_removed s) \<or>
         ((main_at s, main_at s') \<in>
            {(RunExecutor, SendStop), (RunOutputReader, MarkAsComplete),
             (MarkAsComplete, UploadBinary), (UploadBinary, UploadStdout),
             (UploadStdout, StartCleanup), (ChdirRoot, NextIteration)} \<and> others_same s s')"
proof (cases "main_at s")
  case StartMonitor
  with assms show ?thesis by (auto simp: main_step_def)
next
  case RunExecutor
  with assms show ?thesis by (auto simp: main_step_def others_same_def split: if_splits)
next
  case SendStop
  with assms show ?thesis
    by (auto simp: main_step_def others_same_def chan_send_def split: if_splits chan_op.splits)
next
  case CloseMessages
  with assms show ?thesis
    by (auto simp: main_step_def others_same_def chan_close_def split: if_splits chan_op.splits)
next
  case RunOutputReader
  with assms show ?thesis by (auto simp: main_step_def others_same_def split: if_splits)
next
  case MarkAsComplete
  with assms show ?thesis
    by (auto simp: main_step_def others_same_def
          split: option.splits prod.splits dispatch_outcome.splits)
next
  case UploadBinary
  with assms after_upload_cases [of "output_tar_gz w" UploadStdout s] show ?thesis
    by (auto simp: main_step_def others_same_def)
next
  case UploadStdout
  with assms after_upload_cases [of "stdout_txt w" StartCleanup s] show ?thesis
    by (auto simp: main_step_def others_same_def)
next
  case StartCleanup
  with assms show ?thesis by (auto simp: main_step_def)
next
  case ChdirRoot
  with assms show ?thesis by (auto simp: main_step_def others_same_def split: if_splits)
next
  case NextIteration
  with assms show ?thesis by (simp add: main_step_def)
qed

lemma monitor_step_cases:
  assumes "monitor_step w s = Some s'"
  shows "main_at s' = main_at s \<and> cleanup_at s' = cleanup_at s \<and>
         directory_removed s' = directory_removed s \<and>
         ((monitor_at s' = monitor_at s \<and> messages s' = messages s \<and> finished s' = finished s) \<or>
          (monitor_at s = StatProgressMonitor \<and> monitor_at s' \<in> {MonitorIteration 0, SendFinished} \<and>
             messages s' = messages s \<and> finished s' = finished s) \<or>
          (\<exists>i. monitor_at s = MonitorIteration i \<and> monitor_at s' = SelectStop i \<and>
             messages s' = messages s \<and> finished s' = finished s) \<or>
          (\<exists>i. monitor_at s = SelectStop i \<and> monitor_at s' = MonitorIteration (Suc i) \<and>
             buffered (messages s) = 0 \<and> \<not> chan_closed (messages s) \<and>
             messages s' = messages s \<and> finished s' = finished s) \<or>
          (\<exists>i. monitor_at s = SelectStop i \<and> monitor_at s' = SendFinished \<and>
             (0 < buffered (messages s) \<or> chan_closed (messages s)) \<and>
             chan_closed (messages s') = chan_closed (messages s) \<and>
             buffered (messages s') = buffered (messages s) - 1 \<and> finished s' = finished s) \<or>
          (monitor_at s = SendFinished \<and> monitor_at s' = MonitorReturned \<and>
             \<not> chan_closed (finished s) \<and> buffered (finished s) = 0 \<and>
             finished s' = (finished s)\<lparr>buffered := 1\<rparr> \<and> messages s' = messages s))"
proof (cases "monitor_at s")
  case MonitorNotStarted
  with assms show ?thesis by (simp add: monitor_step_def)
next
  case StatProgressMonitor
  with assms show ?thesis by (auto simp: monitor_step_def split: if_splits)
next
  case (MonitorIteration i)
  with assms show ?thesis by (auto simp: monitor_step_def split: iteration_end.splits)
next
  case (SelectStop i)
  with assms show ?thesis
    by (auto simp: monitor_step_def chan_receive_def split: chan_op.splits if_splits)
next
  case SendFinished
  with assms show ?thesis
    by (auto simp: monitor_step_def chan_send_def split: chan_op.splits if_splits)
next
  case MonitorReturned
  with assms show ?thesis by (simp add: monitor_step_def)
qed

lemma cleanup_step_cases:
  assumes "cleanup_step s = Some s'"
  shows "main_at s' = main_at s \<and> monitor_at s' = monitor_at s \<and> messages s' = messages s \<and>
         ((cleanup_at s' = cleanup_at s \<and> finished s' = finished s \<and>
             directory_removed s' = directory_removed s) \<or>
          (cleanup_at s = ReceiveFinished \<and> cleanup_at s' = RemoveAll \<and>
             (0 < buffered (finished s) \<or> chan_closed (finished s)) \<and>
             chan_closed (finished s') = chan_closed (finished s) \<and>
             buffered (finished s') = buffered (finished s) - 1 \<and>
             directory_removed s' = directory_removed s) \<or>
          (cleanup_at s = RemoveAll \<and> cleanup_at s' = CloseFinished \<and>
             finished s' = finished s \<and> directory_removed s') \<or>
          (cleanup_at s = CloseFinished \<and> cleanup_at s' = CleanupDone \<and>
             finished s' = (finished s)\<lparr>chan_closed := True\<rparr> \<and>
             directory_removed s' = directory_removed s))"
proof (cases "cleanup_at s")
  case CleanupNotStarted
  with assms show ?thesis by (simp add: cleanup_step_def)
next
  case ReceiveFinished
  with assms show ?thesis
    by (auto simp: cleanup_step_def chan_receive_def split: chan_op.splits if_splits)
next
  case RemoveAll
  with assms show ?thesis by (auto simp: cleanup_step_def)
next
  case CloseFinished
  with assms show ?thesis
    by (auto simp: cleanup_step_def chan_close_def split: chan_op.splits if_splits)
next
  case CleanupDone
  with assms show ?thesis by (simp add: cleanup_step_def)
qed

lemma handshake_main:
  "handshake_inv s \<Longrightarrow> main_step w s = Some s' \<Longrightarrow> handshake_inv s'"
  apply (drule main_step_cases)
  apply (elim disjE conjE)
  apply (simp_all add: handshake_inv_def others_same_def)
  apply (elim disjE conjE; simp)+
  done

lemma handshake_monitor:
  "handshake_inv s \<Longrightarrow> monitor_step w s = Some s' \<Longrightarrow> handshake_inv s'"
  apply (drule monitor_step_cases)
  apply (elim disjE conjE exE)
  apply (simp_all add: handshake_inv_def)
  apply auto
  done

lemma handshake_cleanup:
  "handshake_inv s \<Longrightarrow> cleanup_step s = Some s' \<Longrightarrow> handshake_inv s'"
  apply (drule cleanup_step_cases)
  apply (elim disjE conjE)
  apply (simp_all add: handshake_inv_def)
  apply auto
  done

lemma stop_main:
  "stop_inv s \<Longrightarrow> main_step w s = Some s' \<Longrightarrow> stop_inv s'"
  apply (drule main_step_cases)
  apply (elim disjE conjE)
  apply (simp_all add: stop_inv_def others_same_def)
  apply (elim disjE conjE; simp)+
  done

lemma stop_monitor:
  "stop_inv s \<Longrightarrow> monitor_step w s = Some s' \<Longrightarrow> stop_inv s'"
  apply (drule monitor_step_cases)
  apply (elim disjE conjE exE)
  apply (simp_all add: stop_inv_def)
  done

lemma stop_cleanup:
  "stop_inv s \<Longrightarrow> cleanup_step s = Some s' \<Longrightarrow> stop_inv s'"
  apply (drule cleanup_step_cases)
  apply (elim disjE conjE)
  apply (simp_all add: stop_inv_def)
  done

lemma step_cases:
  assumes "step w t s = Some s'"
  shows "main_step w s = Some s' \<or> monitor_step w s = Some s' \<or> cleanup_step s = Some s'"
  using assms by (cases t) (simp_all add: step_def split: if_splits)

lemma handshake_reachable: "reachable w s \<Longrightarrow> handshake_inv s"
proof (induction rule: reachable.induct)
  case reachable_initial
  show ?case by (simp add: handshake_inv_def initial_def)
next
  case (reachable_step s t s')
  from step_cases [OF reachable_step(2)] reachable_step(3) show ?case
    using handshake_main handshake_monitor handshake_cleanup by blast
qed

lemma stop_reachable: "reachable w s \<Longrightarrow> stop_inv s"
proof (induction rule: reachable.induct)
  case reachable_initial
  show ?case by (simp add: stop_inv_def initial_def)
next
  case (reachable_step s t s')
  from step_cases [OF reachable_step(2)] reachable_step(3) show ?case
    using stop_main stop_monitor stop_cleanup by blast
qed

lemma run_reachable: "reachable w s \<Longrightarrow> run w ts s = Some s' \<Longrightarrow> reachable w s'"
proof (induction ts arbitrary: s)
  case Nil then show ?case by simp
next
  case (Cons t ts)
  then show ?case
    by (auto split: option.splits intro: reachable_step)
qed

lemmas run_defs =
  step_def main_step_def monitor_step_def cleanup_step_def after_upload_def
  chan_send_def chan_receive_def chan_close_def initial_def
  example_world_def unreachable_world_def example_config_def example_request_def
  mark_as_complete_def simulationRunResults_def markAsCompleteInfo_def url_Values_def
  IntermediateMonitoring_iteration_def intermediateResults_def progressInfo_def
  communicationTimeout_def default_Timeout_def dispatch_defs
  stop_pending_state_def stop_sent_state_def reporting_state_def reported_state_def
  waiting_state_def acknowledging_state_def removed_state_def

lemma example_runs:
  "run example_world [MainThread, MainThread] initial = Some stop_pending_state"
  "run example_world [MainThread, MainThread, MainThread] initial = Some stop_sent_state"
  "run example_world [MainThread, MainThread, MainThread, MainThread, MainThread] initial
     = Some reporting_state"
  "run example_world [MainThread, MainThread, MainThread, MainThread, MainThread, MainThread]
     initial = Some reported_state"
  "run example_world [MainThread, MainThread, MainThread, MainThread, MainThread, MainThread,
     MainThread, MainThread, MainThread] initial = Some waiting_state"
  "run example_world [MainThread, MainThread, MainThread, MainThread, MainThread, MainThread,
     MainThread, MainThread, MainThread, MonitorThread, MonitorThread, MonitorThread] initial
     = Some acknowledging_state"
  "run example_world [MainThread, MainThread, MainThread, MainThread, MainThread, MainThread,
     MainThread, MainThread, MainThread, MonitorThread, MonitorThread, MonitorThread,
     MainThread, MonitorThread, CleanupThread, CleanupThread] initial = Some removed_state"
  by (simp_all add: run_defs)

text \<open>
  Claim C1, as the code has it.  In every reachable state of a simulation run: when the
  main thread is at \<^verbatim>\<open>messages <- struct{}{}\<close> the send does not block, the buffer
  of capacity 1 being empty; the next step closes the channel and takes the main thread
  to the output reader; from there on the channel is closed and the stop signal is in
  the buffer or the monitor has taken its way out; and the main thread is never blocked
  before the next turn of its loop, whatever the monitor does: it receives from no
  channel.
\<close>

theorem stop_signal_not_awaited:
  assumes "reachable w s"
  shows "(main_at s = SendStop \<and> ended s = None \<longrightarrow>
            step w MainThread s =
              Some (s\<lparr>messages := \<lparr>buffered = 1, chan_closed = False\<rparr>, main_at := CloseMessages\<rparr>)) \<and>
         (main_at s = CloseMessages \<and> ended s = None \<longrightarrow>
            step w MainThread s =
              Some (s\<lparr>messages := (messages s)\<lparr>chan_closed := True\<rparr>, main_at := RunOutputReader\<rparr>)) \<and>
         (after_CloseMessages (main_at s) \<longrightarrow>
            chan_closed (messages s) \<and>
            (buffered (messages s) = 1 \<or> monitor_at s \<in> {SendFinished, MonitorReturned})) \<and>
         (ended s = None \<and> main_at s \<noteq> NextIteration \<longrightarrow> step w MainThread s \<noteq> None)"
proof -
  have inv: "stop_inv s" using assms by (rule stop_reachable)
  show ?thesis
  proof (intro conjI impI)
    assume a: "ended s = None \<and> main_at s \<noteq> NextIteration"
    show "step w MainThread s \<noteq> None"
    proof (cases "main_at s")
      case SendStop
      with inv have "messages s = \<lparr>buffered = 0, chan_closed = False\<rparr>"
        by (simp add: stop_inv_def)
      with a SendStop show ?thesis
        by (simp add: step_def main_step_def chan_send_def)
    next
      case CloseMessages
      with a show ?thesis
        by (simp add: step_def main_step_def chan_close_def)
    next
      case MarkAsComplete
      with a show ?thesis
        by (simp add: step_def main_step_def split: option.splits prod.splits
              dispatch_outcome.splits)
    qed (use a in \<open>simp_all add: step_def main_step_def\<close>)
  next
    assume a: "main_at s = SendStop \<and> ended s = None"
    with inv have "messages s = \<lparr>buffered = 0, chan_closed = False\<rparr>"
      by (simp add: stop_inv_def)
    with a show "step w MainThread s =
              Some (s\<lparr>messages := \<lparr>buffered = 1, chan_closed = False\<rparr>, main_at := CloseMessages\<rparr>)"
      by (simp add: step_def main_step_def chan_send_def)
  next
    assume a: "main_at s = CloseMessages \<and> ended s = None"
    with inv have "\<not> chan_closed (messages s)" by (simp add: stop_inv_def)
    with a show "step w MainThread s =
              Some (s\<lparr>messages := (messages s)\<lparr>chan_closed := True\<rparr>, main_at := RunOutputReader\<rparr>)"
      by (simp add: step_def main_step_def chan_close_def)
  next
    assume "after_CloseMessages (main_at s)"
    with inv show "chan_closed (messages s)" by (simp add: stop_inv_def)
  next
    assume "after_CloseMessages (main_at s)"
    with inv show "buffered (messages s) = 1 \<or> monitor_at s \<in> {SendFinished, MonitorReturned}"
      by (simp add: stop_inv_def)
  qed
qed

theorem stop_signal_not_awaited_witness:
  "run example_world [MainThread, MainThread] initial = Some stop_pending_state \<and>
   main_at stop_pending_state = SendStop \<and> ended stop_pending_state = None \<and>
   step example_world MainThread stop_pending_state = Some stop_sent_state \<and>
   main_at stop_sent_state = CloseMessages \<and> ended stop_sent_state = None \<and>
   step example_world MainThread stop_sent_state =
     Some (stop_sent_state\<lparr>messages := \<lparr>buffered = 1, chan_closed = True\<rparr>,
             main_at := RunOutputReader\<rparr>) \<and>
   after_CloseMessages (main_at reported_state) \<and>
   chan_closed (messages reported_state) \<and> buffered (messages reported_state) = 1 \<and>
   main_at reported_state \<noteq> NextIteration \<and>
   step example_world MainThread reported_state \<noteq> None"
proof -
  have r1: "reachable example_world stop_pending_state"
    by (rule run_reachable [OF reachable_initial example_runs(1)])
  have r2: "reachable example_world stop_sent_state"
    by (rule run_reachable [OF reachable_initial example_runs(2)])
  have r3: "reachable example_world reported_state"
    by (rule run_reachable [OF reachable_initial example_runs(4)])
  show ?thesis
    using stop_signal_not_awaited [OF r1] stop_signal_not_awaited [OF r2]
      stop_signal_not_awaited [OF r3] example_runs(1)
    by (simp add: stop_pending_state_def stop_sent_state_def reporting_state_def
          reported_state_def initial_def)
qed

text \<open>
  Claim C1 as the specification words it fails: the main thread alone takes six steps,
  through the executor, the stop signal, the output reader and the request
  \<^verbatim>\<open>mark_as_complete\<close>, while the monitor has not taken its first step and nothing
  has been sent on \<^verbatim>\<open>finished\<close>.
\<close>

theorem reported_before_acknowledgment:
  "run example_world [MainThread, MainThread, MainThread, MainThread, MainThread, MainThread]
     initial = Some reported_state \<and>
   main_at reported_state = UploadBinary \<and>
   requests reported_state = [example_request] \<and>
   ServiceMethod example_request = ''experiments/e1/simulations/3/mark_as_complete'' \<and>
   monitor_at reported_state = StatProgressMonitor \<and>
   buffered (finished reported_state) = 0"
  using example_runs(4)
  by (simp add: stop_pending_state_def stop_sent_state_def reporting_state_def
        reported_state_def initial_def example_request_def)

text \<open>
  Claim C3.  In every reachable state of a simulation run: when the cleanup is about to
  remove the directory, or has removed it, the monitor has sent its acknowledgment and
  returned, and the main thread had sent the stop signal; while the monitor has not
  returned, the cleanup is blocked at its receive from \<^verbatim>\<open>finished\<close>; and a step of
  the monitor that sends on \<^verbatim>\<open>finished\<close> is its last one before it returns.
\<close>

theorem cleanup_after_acknowledgment:
  assumes "reachable w s"
  shows "(cleanup_at s = RemoveAll \<or> directory_removed s \<longrightarrow>
            monitor_at s = MonitorReturned \<and> after_CloseMessages (main_at s)) \<and>
         (cleanup_at s = ReceiveFinished \<and> monitor_at s \<noteq> MonitorReturned \<longrightarrow>
            step w CleanupThread s = None) \<and>
         (\<forall>s'. step w MonitorThread s = Some s' \<and> finished s' \<noteq> finished s \<longrightarrow>
            monitor_at s = SendFinished \<and> monitor_at s' = MonitorReturned)"
proof -
  have inv: "handshake_inv s" using assms by (rule handshake_reachable)
  show ?thesis
  proof (intro conjI impI allI)
    assume "cleanup_at s = RemoveAll \<or> directory_removed s"
    with inv show "monitor_at s = MonitorReturned"
      by (auto simp: handshake_inv_def)
  next
    assume "cleanup_at s = RemoveAll \<or> directory_removed s"
    with inv have "main_at s \<in> {ChdirRoot, NextIteration}"
      by (auto simp: handshake_inv_def)
    then show "after_CloseMessages (main_at s)" by auto
  next
    assume a: "cleanup_at s = ReceiveFinished \<and> monitor_at s \<noteq> MonitorReturned"
    with inv have "buffered (finished s) = 0" "\<not> chan_closed (finished s)"
      by (auto simp: handshake_inv_def)
    with a show "step w CleanupThread s = None"
      by (simp add: step_def cleanup_step_def chan_receive_def)
  next
    fix s'
    assume a: "step w MonitorThread s = Some s' \<and> finished s' \<noteq> finished s"
    then show "monitor_at s = SendFinished"
      by (cases "monitor_at s")
         (auto simp: step_def monitor_step_def
            split: if_splits chan_op.splits iteration_end.splits)
  next
    fix s'
    assume a: "step w MonitorThread s = Some s' \<and> finished s' \<noteq> finished s"
    then show "monitor_at s' = MonitorReturned"
      by (cases "monitor_at s")
         (auto simp: step_def monitor_step_def
            split: if_splits chan_op.splits iteration_end.splits)
  qed
qed

theorem cleanup_after_acknowledgment_witness:
  "run example_world [MainThread, MainThread, MainThread, MainThread, MainThread, MainThread,
     MainThread, MainThread, MainThread, MonitorThread, MonitorThread, MonitorThread,
     MainThread, MonitorThread, CleanupThread, CleanupThread] initial = Some removed_state \<and>
   directory_removed removed_state \<and> monitor_at removed_state = MonitorReturned \<and>
   after_CloseMessages (main_at removed_state) \<and>
   cleanup_at waiting_state = ReceiveFinished \<and>
   monitor_at waiting_state = StatProgressMonitor \<and>
   step example_world CleanupThread waiting_state = None \<and>
   step example_world MonitorThread acknowledging_state =
     Some (acknowledging_state\<lparr>finished := \<lparr>buffered = 1, chan_closed = False\<rparr>,
             monitor_at := MonitorReturned\<rparr>)"
proof -
  have r1: "reachable example_world removed_state"
    by (rule run_reachable [OF reachable_initial example_runs(7)])
  have r2: "reachable example_world waiting_state"
    by (rule run_reachable [OF reachable_initial example_runs(5)])
  have r3: "reachable example_world acknowledging_state"
    by (rule run_reachable [OF reachable_initial example_runs(6)])
  have s: "step example_world MonitorThread acknowledging_state =
     Some (acknowledging_state\<lparr>finished := \<lparr>buffered = 1, chan_closed = False\<rparr>,
             monitor_at := MonitorReturned\<rparr>)"
    by (simp add: run_defs)
  show ?thesis
    using cleanup_after_acknowledgment [OF r1] cleanup_after_acknowledgment [OF r2]
      cleanup_after_acknowledgment [OF r3] example_runs(7) s
    by (simp add: stop_pending_state_def stop_sent_state_def reporting_state_def
          reported_state_def waiting_state_def acknowledging_state_def removed_state_def
          initial_def)
qed




text \<open>
  Claim C8.  When \<^verbatim>\<open>output.json\<close> does not exist, the results have the status
  \<^verbatim>\<open>error\<close> and a reason that begins \<^verbatim>\<open>No output.json file found:\<close>, and step 4f
  calls the dispatcher on the experiment managers with the request
  \<^verbatim>\<open>mark_as_complete\<close> of the simulation that carries these results in its form.
  The main thread goes on to the uploads when the dispatcher returns a body, and the
  process ends with exit code 1 when it calls \<^verbatim>\<open>Fatal\<close>; the dispatcher returns the
  body of the first experiment manager in the permutation that answers this request.
\<close>

theorem missing_output_reported:
  assumes "output_json w = NotExist e"
  shows "simulationRunResults (output_json w) =
           Some \<lparr>Status = ''error'', Results = JNull,
                  Reason = ''No output.json file found: '' @ e\<rparr> \<and>
         mark_as_complete w =
           Some (missing_output_request (config w) (simulation_index w) e,
                 fst (ExecuteScalarmRequest (missing_output_request (config w) (simulation_index w) e)
                 (complete_managers w) (communicationTimeout (config w)) (complete_perm w) 0)) \<and>
         (\<forall>s. main_at s = MarkAsComplete \<and> ended s = None \<longrightarrow>
            step w MainThread s =
              Some (case fst (ExecuteScalarmRequest (missing_output_request (config w) (simulation_index w) e)
                 (complete_managers w) (communicationTimeout (config w)) (complete_perm w) 0) of
                      Returned body \<Rightarrow>
                        s\<lparr>requests := requests s @ [missing_output_request (config w) (simulation_index w) e], main_at := UploadBinary\<rparr>
                    | FatalExit \<Rightarrow>
                        s\<lparr>requests := requests s @ [missing_output_request (config w) (simulation_index w) e], ended := Some (Exited 1)\<rparr>
                    | IndexPanic \<Rightarrow>
                        s\<lparr>requests := requests s @ [missing_output_request (config w) (simulation_index w) e], ended := Some Panicked\<rparr>)) \<and>
         (\<forall>pre v post k body.
            complete_perm w = pre @ v # post \<and>
            (\<forall>u\<in>set pre. u < length (complete_managers w) \<and>
               request_ok (complete_managers w ! u) (missing_output_request (config w) (simulation_index w) e) \<and>
               no_answer (complete_managers w ! u) (missing_output_request (config w) (simulation_index w) e) (communicationTimeout (config w))) \<and>
            v < length (complete_managers w) \<and>
            request_ok (complete_managers w ! v) (missing_output_request (config w) (simulation_index w) e) \<and>
            answers_at (complete_managers w ! v) (missing_output_request (config w) (simulation_index w) e) (communicationTimeout (config w)) k body
            \<longrightarrow> mark_as_complete w = Some (missing_output_request (config w) (simulation_index w) e, Returned body))"
proof -
  have r: "simulationRunResults (output_json w) =
           Some \<lparr>Status = ''error'', Results = JNull,
                  Reason = ''No output.json file found: '' @ e\<rparr>"
    using assms by (simp add: simulationRunResults_def)
  have q: "markAsCompleteInfo (config w) (simulation_index w)
             \<lparr>Status = ''error'', Results = JNull,
                Reason = ''No output.json file found: '' @ e\<rparr> = missing_output_request (config w) (simulation_index w) e"
    by (simp add: markAsCompleteInfo_def url_Values_def missing_output_request_def)
  have m: "mark_as_complete w =
           Some (missing_output_request (config w) (simulation_index w) e,
                 fst (ExecuteScalarmRequest (missing_output_request (config w) (simulation_index w) e)
                 (complete_managers w) (communicationTimeout (config w)) (complete_perm w) 0))"
    using r q by (simp add: mark_as_complete_def)
  have st: "\<forall>s. main_at s = MarkAsComplete \<and> ended s = None \<longrightarrow>
            step w MainThread s =
              Some (case fst (ExecuteScalarmRequest (missing_output_request (config w) (simulation_index w) e)
                 (complete_managers w) (communicationTimeout (config w)) (complete_perm w) 0) of
                      Returned body \<Rightarrow>
                        s\<lparr>requests := requests s @ [missing_output_request (config w) (simulation_index w) e], main_at := UploadBinary\<rparr>
                    | FatalExit \<Rightarrow>
                        s\<lparr>requests := requests s @ [missing_output_request (config w) (simulation_index w) e], ended := Some (Exited 1)\<rparr>
                    | IndexPanic \<Rightarrow>
                        s\<lparr>requests := requests s @ [missing_output_request (config w) (simulation_index w) e], ended := Some Panicked\<rparr>)"
    using m by (simp add: step_def main_step_def split: dispatch_outcome.splits)
  have dl: "\<forall>pre v post k body.
            complete_perm w = pre @ v # post \<and>
            (\<forall>u\<in>set pre. u < length (complete_managers w) \<and>
               request_ok (complete_managers w ! u) (missing_output_request (config w) (simulation_index w) e) \<and>
               no_answer (complete_managers w ! u) (missing_output_request (config w) (simulation_index w) e) (communicationTimeout (config w))) \<and>
            v < length (complete_managers w) \<and>
            request_ok (complete_managers w ! v) (missing_output_request (config w) (simulation_index w) e) \<and>
            answers_at (complete_managers w ! v) (missing_output_request (config w) (simulation_index w) e) (communicationTimeout (config w)) k body
            \<longrightarrow> mark_as_complete w = Some (missing_output_request (config w) (simulation_index w) e, Returned body)"
  proof (intro allI impI)
    fix pre v post k body
    assume a: "complete_perm w = pre @ v # post \<and>
            (\<forall>u\<in>set pre. u < length (complete_managers w) \<and>
               request_ok (complete_managers w ! u) (missing_output_request (config w) (simulation_index w) e) \<and>
               no_answer (complete_managers w ! u) (missing_output_request (config w) (simulation_index w) e) (communicationTimeout (config w))) \<and>
            v < length (complete_managers w) \<and>
            request_ok (complete_managers w ! v) (missing_output_request (config w) (simulation_index w) e) \<and>
            answers_at (complete_managers w ! v) (missing_output_request (config w) (simulation_index w) e) (communicationTimeout (config w)) k body"
    have "fst (ExecuteScalarmRequest (missing_output_request (config w) (simulation_index w) e)
                 (complete_managers w) (communicationTimeout (config w)) (complete_perm w) 0) = Returned body"
      using a by (intro first_answer_returned [of _ pre v post]) blast+
    with m show "mark_as_complete w = Some (missing_output_request (config w) (simulation_index w) e, Returned body)"
      by simp
  qed
  from r m st dl show ?thesis by blast
qed

theorem missing_output_reported_witness:
  "output_json example_world = NotExist ''stat output.json: no such file or directory'' \<and>
   missing_output_request (config example_world) (simulation_index example_world)
     ''stat output.json: no such file or directory'' = example_request \<and>
   answers_at (complete_managers example_world ! 0) example_request
     (communicationTimeout (config example_world)) 0 ''{}'' \<and>
   mark_as_complete example_world = Some (example_request, Returned ''{}'') \<and>
   main_at reporting_state = MarkAsComplete \<and> ended reporting_state = None \<and>
   step example_world MainThread reporting_state = Some reported_state \<and>
   requests reported_state = [example_request]"
proof -
  have h: "output_json example_world = NotExist ''stat output.json: no such file or directory''"
    by (simp add: example_world_def)
  have q: "missing_output_request (config example_world) (simulation_index example_world)
     ''stat output.json: no such file or directory'' = example_request"
    by (simp add: missing_output_request_def example_world_def example_config_def
          example_request_def)
  have a: "answers_at (complete_managers example_world ! 0) example_request
     (communicationTimeout (config example_world)) 0 ''{}''"
    by (simp add: answers_at_def example_world_def up_endpoint_def communicationTimeout_def
          default_Timeout_def example_config_def Second_def)
  note t = missing_output_reported [OF h, unfolded q]
  have p: "complete_perm example_world = [] @ 0 # []" by (simp add: example_world_def)
  have v: "0 < length (complete_managers example_world)" by (simp add: example_world_def)
  have b: "request_ok (complete_managers example_world ! 0) example_request"
    by (simp add: example_world_def up_endpoint_def)
  have m: "mark_as_complete example_world = Some (example_request, Returned ''{}'')"
    using t p v b a by fastforce
  have d: "fst (ExecuteScalarmRequest example_request (complete_managers example_world)
      (communicationTimeout (config example_world)) (complete_perm example_world) 0)
      = Returned ''{}''"
    by (simp add: run_defs)
  have "main_at reporting_state = MarkAsComplete \<and> ended reporting_state = None"
    by (simp add: stop_pending_state_def stop_sent_state_def reporting_state_def initial_def)
  with t have "step example_world MainThread reporting_state =
      Some (case fst (ExecuteScalarmRequest example_request (complete_managers example_world)
                  (communicationTimeout (config example_world)) (complete_perm example_world) 0) of
              Returned body \<Rightarrow>
                reporting_state\<lparr>requests := requests reporting_state @ [example_request],
                  main_at := UploadBinary\<rparr>
            | FatalExit \<Rightarrow>
                reporting_state\<lparr>requests := requests reporting_state @ [example_request],
                  ended := Some (Exited 1)\<rparr>
            | IndexPanic \<Rightarrow>
                reporting_state\<lparr>requests := requests reporting_state @ [example_request],
                  ended := Some Panicked\<rparr>)"
    by blast
  then have s: "step example_world MainThread reporting_state = Some reported_state"
    unfolding d
    by (simp add: stop_pending_state_def stop_sent_state_def reporting_state_def
          reported_state_def initial_def)
  from h q a m s show ?thesis
    by (simp add: stop_pending_state_def stop_sent_state_def reporting_state_def
          reported_state_def initial_def)
qed

end
